theory Spec2Isabelle
  imports Complex_Main
begin

section \<open>JavaScript numbers\<close>

text \<open>
  A JavaScript number is an IEEE-754 binary64 value. The finite ones are modelled by the
  rational they denote, and every arithmetic operation rounds its exact result to the
  nearest binary64 value, ties to the even significand, as the hardware does. The sign of
  zero is not kept (\<open>-0\<close> and \<open>+0\<close> are one value); the modelled code never divides
  by a computed zero.
\<close>

datatype number = NaN | PInf | NInf | Fin rat

definition pow2 :: "int \<Rightarrow> rat" where
  "pow2 e = (if 0 \<le> e then 2 ^ nat e else 1 / 2 ^ nat (- e))"

text \<open>Number of binary digits of a positive integer.\<close>

function bits :: "int \<Rightarrow> int" where
  "bits n = (if n \<le> 0 then 0 else 1 + bits (n div 2))"
  by pat_completeness auto
termination
  by (relation "measure nat") auto

declare bits.simps [simp del]

text \<open>\<open>binade a b\<close> is the exponent \<open>e\<close> with \<open>2^e \<le> a / b < 2^(e+1)\<close>, for positive \<open>a\<close>, \<open>b\<close>.\<close>

definition binade :: "int \<Rightarrow> int \<Rightarrow> int" where
  "binade a b = (let e = bits a - bits b in
     if (if 0 \<le> e then b * 2 ^ nat e \<le> a else b \<le> a * 2 ^ nat (- e)) then e else e - 1)"

text \<open>The quotient \<open>n / d\<close> rounded to the nearest integer, ties to even.\<close>

definition rne_div :: "int \<Rightarrow> int \<Rightarrow> int" where
  "rne_div n d = (let f = n div d; r = 2 * (n mod d) in
     if r < d then f else if d < r then f + 1 else if even f then f else f + 1)"

text \<open>
  Rounding of the positive rational \<open>a / b\<close>: 53 significant bits in the normal range,
  multiples of \<open>2^-1074\<close> below it, infinity from \<open>2^1024 - 2^970\<close> on.
\<close>

definition round_pos :: "int \<Rightarrow> int \<Rightarrow> number" where
  "round_pos a b = (let e = max (binade a b) (- 1022) - 52;
       m = (if 0 \<le> e then rne_div a (b * 2 ^ nat e) else rne_div (a * 2 ^ nat (- e)) b) in
     if 971 < e \<or> (e = 971 \<and> m = 2 ^ 53) then PInf else Fin (of_int m * pow2 e))"

definition neg :: "number \<Rightarrow> number" where
  "neg x = (case x of NaN \<Rightarrow> NaN | PInf \<Rightarrow> NInf | NInf \<Rightarrow> PInf | Fin q \<Rightarrow> Fin (- q))"

definition round64 :: "rat \<Rightarrow> number" where
  "round64 q = (let (a, b) = quotient_of q in
     if a = 0 then Fin 0
     else if 0 < a then round_pos a b
     else neg (round_pos (- a) b))"

text \<open>
  A decimal literal of the source denotes the binary64 value nearest to it:
  \<open>decimal 95 2\<close> is the literal \<open>0.95\<close>. An integer literal \<open>n\<close> below \<open>2^53\<close> is the binary64
  value \<open>Fin n\<close> itself.
\<close>

definition decimal :: "int \<Rightarrow> int \<Rightarrow> number" where
  "decimal m k = round64 (of_int m / 10 ^ nat k)"

text \<open>The operators \<open>*\<close>, \<open>+\<close> and \<open>/\<close> on numbers.\<close>

fun js_mul :: "number \<Rightarrow> number \<Rightarrow> number" where
  "js_mul (Fin x) (Fin y) = round64 (x * y)"
| "js_mul NaN _ = NaN"
| "js_mul _ NaN = NaN"
| "js_mul (Fin x) PInf = (if x = 0 then NaN else if 0 < x then PInf else NInf)"
| "js_mul (Fin x) NInf = (if x = 0 then NaN else if 0 < x then NInf else PInf)"
| "js_mul PInf (Fin y) = (if y = 0 then NaN else if 0 < y then PInf else NInf)"
| "js_mul NInf (Fin y) = (if y = 0 then NaN else if 0 < y then NInf else PInf)"
| "js_mul PInf PInf = PInf"
| "js_mul NInf NInf = PInf"
| "js_mul PInf NInf = NInf"
| "js_mul NInf PInf = NInf"

fun js_add :: "number \<Rightarrow> number \<Rightarrow> number" where
  "js_add (Fin x) (Fin y) = round64 (x + y)"
| "js_add NaN _ = NaN"
| "js_add _ NaN = NaN"
| "js_add PInf NInf = NaN"
| "js_add NInf PInf = NaN"
| "js_add PInf _ = PInf"
| "js_add NInf _ = NInf"
| "js_add _ PInf = PInf"
| "js_add _ NInf = NInf"

fun js_div :: "number \<Rightarrow> number \<Rightarrow> number" where
  "js_div (Fin x) (Fin y) =
     (if y = 0 then (if x = 0 then NaN else if 0 < x then PInf else NInf)
      else round64 (x / y))"
| "js_div NaN _ = NaN"
| "js_div _ NaN = NaN"
| "js_div (Fin x) _ = Fin 0"
| "js_div PInf (Fin y) = (if 0 \<le> y then PInf else NInf)"
| "js_div NInf (Fin y) = (if 0 \<le> y then NInf else PInf)"
| "js_div _ _ = NaN"

text \<open>The comparisons \<open><\<close> and \<open>\<le>\<close>; \<open>a > b\<close> is \<open>js_lt b a\<close>, \<open>a >= b\<close> is \<open>js_le b a\<close>.
  Every comparison with \<open>NaN\<close> is false.\<close>

fun js_lt :: "number \<Rightarrow> number \<Rightarrow> bool" where
  "js_lt (Fin x) (Fin y) = (x < y)"
| "js_lt NaN _ = False"
| "js_lt _ NaN = False"
| "js_lt NInf NInf = False"
| "js_lt NInf _ = True"
| "js_lt _ NInf = False"
| "js_lt PInf _ = False"
| "js_lt _ PInf = True"

fun js_le :: "number \<Rightarrow> number \<Rightarrow> bool" where
  "js_le (Fin x) (Fin y) = (x \<le> y)"
| "js_le NaN _ = False"
| "js_le _ NaN = False"
| "js_le NInf _ = True"
| "js_le _ PInf = True"
| "js_le _ _ = False"

text \<open>\<open>Math.min\<close> of two numbers and \<open>Math.round\<close> (halves go up).\<close>

definition Math_min :: "number \<Rightarrow> number \<Rightarrow> number" where
  "Math_min a b = (if a = NaN \<or> b = NaN then NaN else if js_lt b a then b else a)"

definition Math_round :: "number \<Rightarrow> number" where
  "Math_round x = (case x of Fin q \<Rightarrow> Fin (of_int \<lfloor>q + 1 / 2\<rfloor>) | _ \<Rightarrow> x)"

section \<open>JavaScript strings\<close>

text \<open>
  Strings are well-formed and held in UTF-8, one \<open>char\<close> a byte: the ASCII characters of
  the source as they are, a character beyond ASCII as its bytes. The source slices only
  digests and keys, strings of hex digits, where the code units that \<open>slice\<close> counts are
  bytes: \<open>slice(0, n)\<close> is \<open>take n\<close>.
\<close>

text \<open>The white space and line terminators that \<open>trim\<close> removes, in UTF-8.\<close>

definition white_space :: "string list" where
  "white_space =
     [[CHR 0x09], [CHR 0x0A], [CHR 0x0B], [CHR 0x0C], [CHR 0x0D], [CHR 0x20],
      [CHR 0xC2, CHR 0xA0], [CHR 0xE1, CHR 0x9A, CHR 0x80],
      [CHR 0xE2, CHR 0x80, CHR 0x80], [CHR 0xE2, CHR 0x80, CHR 0x81],
      [CHR 0xE2, CHR 0x80, CHR 0x82], [CHR 0xE2, CHR 0x80, CHR 0x83],
      [CHR 0xE2, CHR 0x80, CHR 0x84], [CHR 0xE2, CHR 0x80, CHR 0x85],
      [CHR 0xE2, CHR 0x80, CHR 0x86], [CHR 0xE2, CHR 0x80, CHR 0x87],
      [CHR 0xE2, CHR 0x80, CHR 0x88], [CHR 0xE2, CHR 0x80, CHR 0x89],
      [CHR 0xE2, CHR 0x80, CHR 0x8A], [CHR 0xE2, CHR 0x80, CHR 0xA8],
      [CHR 0xE2, CHR 0x80, CHR 0xA9], [CHR 0xE2, CHR 0x80, CHR 0xAF],
      [CHR 0xE2, CHR 0x81, CHR 0x9F], [CHR 0xE3, CHR 0x80, CHR 0x80],
      [CHR 0xEF, CHR 0xBB, CHR 0xBF]]"

text \<open>Removal of every leading occurrence of one of the given byte sequences.\<close>

function strip :: "string list \<Rightarrow> string \<Rightarrow> string" where
  "strip ws s =
     (case find (\<lambda>w. w \<noteq> [] \<and> take (length w) s = w) ws of
        None \<Rightarrow> s
      | Some w \<Rightarrow> strip ws (drop (length w) s))"
  by pat_completeness auto
termination
proof (relation "measure (\<lambda>(ws, s). length s)")
  show "wf (measure (\<lambda>(ws, s). length s))"
    by simp
next
  fix ws :: "string list" and s w :: string
  assume "find (\<lambda>w. w \<noteq> [] \<and> take (length w) s = w) ws = Some w"
  then have "w \<noteq> []" "take (length w) s = w"
    by (auto simp: find_Some_iff)
  then have "s \<noteq> []" "0 < length w"
    by auto
  then show "((ws, drop (length w) s), (ws, s)) \<in> measure (\<lambda>(ws, s). length s)"
    by simp
qed

declare strip.simps [simp del]

definition trimEnd :: "string \<Rightarrow> string" where
  "trimEnd s = rev (strip (map rev white_space) (rev s))"

definition trim :: "string \<Rightarrow> string" where
  "trim s = trimEnd (strip white_space s)"

definition lower_char :: "char \<Rightarrow> char" where
  "lower_char c = (let n = (of_char c :: nat) in
     if 65 \<le> n \<and> n \<le> 90 then char_of (n + 32) else c)"

text \<open>
  \<open>String.prototype.toLowerCase\<close>. On a string of ASCII characters it maps the letters
  \<open>A\<close> to \<open>Z\<close> and nothing else. On a string with a character beyond ASCII the result is
  that of the engine's Unicode case conversion, whose tables are not in the source: the
  functions take it as the parameter \<open>U\<close>, from the string to its lower-case form.
\<close>

definition is_ascii :: "string \<Rightarrow> bool" where
  "is_ascii s = list_all (\<lambda>c. (of_char c :: nat) < 128) s"

definition toLowerCase :: "(string \<Rightarrow> string) \<Rightarrow> string \<Rightarrow> string" where
  "toLowerCase U s = (if is_ascii s then map lower_char s else U s)"

definition startsWith :: "string \<Rightarrow> string \<Rightarrow> bool" where
  "startsWith s p = (take (length p) s = p)"

text \<open>Truthiness of an optional string: absent and empty are falsy.\<close>

fun truthy :: "string option \<Rightarrow> bool" where
  "truthy None = False"
| "truthy (Some s) = (s \<noteq> [])"

definition hex_digit :: "nat \<Rightarrow> char" where
  "hex_digit d = (if d < 10 then char_of (48 + d) else char_of (87 + d))"

function dec :: "nat \<Rightarrow> string" where
  "dec n = (if n < 10 then [char_of (48 + n)] else dec (n div 10) @ [char_of (48 + n mod 10)])"
  by pat_completeness auto
termination
  by (relation "measure id") auto

declare dec.simps [simp del]

text \<open>
  \<open>x.toFixed(3)\<close> for a finite \<open>x\<close> below \<open>10^21\<close> in absolute value: the integer nearest to
  \<open>1000 x\<close> (the larger of two), printed with three digits after the point.
\<close>

definition toFixed3_abs :: "rat \<Rightarrow> string" where
  "toFixed3_abs q = (let n = nat \<lfloor>q * 1000 + 1 / 2\<rfloor>; m = dec n;
       m' = replicate (4 - length m) (CHR ''0'') @ m in
     take (length m' - 3) m' @ ''.'' @ drop (length m' - 3) m')"

definition toFixed3 :: "number \<Rightarrow> string" where
  "toFixed3 x = (case x of
       NaN \<Rightarrow> ''NaN''
     | PInf \<Rightarrow> ''Infinity''
     | NInf \<Rightarrow> ''-Infinity''
     | Fin q \<Rightarrow> (if q < 0 then ''-'' @ toFixed3_abs (- q) else toFixed3_abs q))"

text \<open>\<open>JSON.stringify\<close> of a string: quoted, with the escapes of the standard.\<close>

definition dq :: char where
  "dq = CHR 0x22"

definition bslash :: char where
  "bslash = CHR 0x5C"

definition json_escape :: "char \<Rightarrow> string" where
  "json_escape c = (let n = (of_char c :: nat) in
     if c = dq then [bslash, dq]
     else if c = bslash then [bslash, bslash]
     else if n = 8 then [bslash, CHR ''b'']
     else if n = 9 then [bslash, CHR ''t'']
     else if n = 10 then [bslash, CHR ''n'']
     else if n = 12 then [bslash, CHR ''f'']
     else if n = 13 then [bslash, CHR ''r'']
     else if n < 32 then [bslash, CHR ''u'', CHR ''0'', CHR ''0'', hex_digit (n div 16), hex_digit (n mod 16)]
     else [c])"

definition json_string :: "string \<Rightarrow> string" where
  "json_string s = dq # concat (map json_escape s) @ [dq]"

datatype error = Error string | TypeError string | SyntaxError string

fun message :: "error \<Rightarrow> string" where
  "message (Error m) = m"
| "message (TypeError m) = m"
| "message (SyntaxError m) = m"

section \<open>Consent protocol (constitutional/consent-protocol.js)\<close>

text \<open>
  \<open>createHash('sha256').update(s).digest('hex')\<close> is the platform's; the functions take it
  as the parameter \<open>H\<close>, from the bytes hashed to the hex digest, and the engine's case
  conversion beyond ASCII as the parameter \<open>U\<close>. \<open>canonical\<close> is \<open>JSON.stringify\<close> of the
  object of the three normalized values, its keys in the order the source writes them.
\<close>

definition canonical :: "(string \<Rightarrow> string) \<Rightarrow> string \<Rightarrow> string \<Rightarrow> string \<Rightarrow> string" where
  "canonical U cohort scope clinician_id =
     ''{'' @ json_string ''cohort'' @ '':'' @ json_string (toLowerCase U (trim cohort)) @
     '','' @ json_string ''scope'' @ '':'' @ json_string (toLowerCase U (trim scope)) @
     '','' @ json_string ''clinician_id'' @ '':'' @ json_string (trim clinician_id) @ ''}''"

definition generateConsentRecordId ::
  "(string \<Rightarrow> string) \<Rightarrow> (string \<Rightarrow> string) \<Rightarrow> string option \<Rightarrow> string option \<Rightarrow> string option \<Rightarrow> error + string" where
  "generateConsentRecordId H U cohort scope clinician_id =
     (if \<not> truthy cohort \<or> \<not> truthy scope \<or> \<not> truthy clinician_id
      then Inl (Error ''CONSENT_ERROR: cohort, scope, and clinician_id are all required'')
      else Inr (''CR-'' @ take 32 (H (canonical U (the cohort) (the scope) (the clinician_id)))))"

record validation =
  valid :: bool
  vreason :: string

definition validateConsentRecord ::
  "(string \<Rightarrow> string) \<Rightarrow> (string \<Rightarrow> string) \<Rightarrow> string option \<Rightarrow> string option \<Rightarrow> string option \<Rightarrow> string option
     \<Rightarrow> validation" where
  "validateConsentRecord H U consent_record_id cohort scope clinician_id =
     (if \<not> truthy consent_record_id
      then \<lparr>valid = False,
            vreason = ''CONSENT_INVALID: consent_record_id is missing or not a string''\<rparr>
      else if \<not> startsWith (the consent_record_id) ''CR-''
      then \<lparr>valid = False,
            vreason = ''CONSENT_INVALID: consent_record_id must begin with CR-''\<rparr>
      else (case generateConsentRecordId H U cohort scope clinician_id of
              Inl err \<Rightarrow> \<lparr>valid = False, vreason = ''CONSENT_INVALID: '' @ message err\<rparr>
            | Inr expected \<Rightarrow>
                if the consent_record_id \<noteq> expected
                then \<lparr>valid = False,
                      vreason = ''CONSENT_INVALID: consent_record_id does not match cohort+scope+clinician_id hash''\<rparr>
                else \<lparr>valid = True, vreason = ''CONSENT_VALID''\<rparr>))"

section \<open>The five gates (constitutional/yamas-gates.js)\<close>

text \<open>
  The request context, with the optional fields of the source's type annotations; \<open>None\<close>
  is an absent (undefined) field. \<open>confidence\<close> is the one field whose dynamic type the
  code inspects, so it may hold any JSON scalar.
\<close>

datatype jsval = JNull | JBool bool | JNum number | JStr string

record gate_ctx =
  consent_record_id :: "string option"
  cohort :: "string option"
  scope :: "string option"
  clinician_id :: "string option"
  confidence :: "jsval option"
  data_quality :: "string option"
  model_version :: "string option"
  model_count :: "number option"
  population_size :: "number option"
  patient_facing :: "bool option"
  assessment_type :: "string option"
  regulatory_jurisdiction :: "string option"
  dissent_flag :: "bool option"
  equity_flag :: "string option"

record gate_result =
  pass :: bool
  score :: number
  reason :: string

text \<open>A destructuring default applies to an absent field.\<close>

fun dflt :: "'a \<Rightarrow> 'a option \<Rightarrow> 'a" where
  "dflt d None = d"
| "dflt d (Some x) = x"

definition sq :: char where
  "sq = CHR 0x27"

definition FORBIDDEN_TYPES :: "string list" where
  "FORBIDDEN_TYPES = [''genetic_exclusion'', ''racial_profiling'', ''disability_penalty'']"

definition ahimsaGate :: "gate_ctx \<Rightarrow> gate_result" where
  "ahimsaGate ctx =
     (let population_size = dflt (Fin 0) (population_size ctx);
          patient_facing = dflt False (patient_facing ctx);
          assessment_type = dflt [] (assessment_type ctx)
      in if assessment_type \<in> set FORBIDDEN_TYPES
         then \<lparr>pass = False, score = Fin 0,
               reason = ''AHIMSA_VIOLATION: assessment_type '' @ [sq] @ assessment_type @ [sq] @
                        '' is prohibited''\<rparr>
         else if js_lt (Fin 10000) population_size \<and> \<not> truthy (equity_flag ctx)
         then \<lparr>pass = False, score = Fin 0,
               reason = ''AHIMSA_VIOLATION: large-population assessment requires equity_flag''\<rparr>
         else \<lparr>pass = True, score = (if patient_facing then decimal 80 2 else decimal 95 2),
               reason = ''AHIMSA_PASS''\<rparr>)"

definition satyaGate :: "gate_ctx \<Rightarrow> gate_result" where
  "satyaGate ctx =
     (let confidence = dflt (JNum (Fin 0)) (confidence ctx);
          data_quality = dflt ''unknown'' (data_quality ctx)
      in case confidence of
           JNum c \<Rightarrow>
             if js_lt c (Fin 0) \<or> js_lt (Fin 1) c
             then \<lparr>pass = False, score = Fin 0,
                   reason = ''SATYA_VIOLATION: confidence must be a number in [0, 1]''\<rparr>
             else if js_lt c (decimal 60 2)
             then \<lparr>pass = False, score = Fin 0,
                   reason = ''SATYA_VIOLATION: confidence '' @ toFixed3 c @ '' < minimum 0.60''\<rparr>
             else if data_quality = ''unknown'' \<or> data_quality = ''poor''
             then \<lparr>pass = False, score = Fin 0,
                   reason = ''SATYA_VIOLATION: data_quality '' @ [sq] @ data_quality @ [sq] @
                            '' is insufficient for actuarial assessment''\<rparr>
             else if \<not> truthy (model_version ctx)
             then \<lparr>pass = False, score = Fin 0,
                   reason = ''SATYA_VIOLATION: model_version must be declared (prevents hidden model drift)''\<rparr>
             else \<lparr>pass = True, score = Math_min (Fin 1) (js_mul c (decimal 11 1)),
                   reason = ''SATYA_PASS''\<rparr>
         | _ \<Rightarrow> \<lparr>pass = False, score = Fin 0,
                  reason = ''SATYA_VIOLATION: confidence must be a number in [0, 1]''\<rparr>)"

text \<open>The em dash of the source's message, in UTF-8.\<close>

definition em_dash :: string where
  "em_dash = [CHR 0xE2, CHR 0x80, CHR 0x94]"

definition asteyaGate :: "(string \<Rightarrow> string) \<Rightarrow> (string \<Rightarrow> string) \<Rightarrow> gate_ctx \<Rightarrow> gate_result" where
  "asteyaGate H U ctx =
     (if \<not> truthy (consent_record_id ctx)
      then \<lparr>pass = False, score = Fin 0,
            reason = ''ASTEYA_VIOLATION: consent_record_id is required '' @ em_dash @
                     '' no analysis without consent''\<rparr>
      else let validation = validateConsentRecord H U (consent_record_id ctx) (cohort ctx) (scope ctx)
                              (clinician_id ctx)
           in if \<not> valid validation
              then \<lparr>pass = False, score = Fin 0,
                    reason = ''ASTEYA_VIOLATION: '' @ vreason validation\<rparr>
              else \<lparr>pass = True, score = decimal 95 2, reason = ''ASTEYA_PASS''\<rparr>)"

definition VALIDATED_SCOPES :: "string list" where
  "VALIDATED_SCOPES =
     [''life_insurance_pricing'', ''health_insurance_risk'', ''reinsurance_modelling'',
      ''population_mortality'', ''drug_discovery_integration'', ''dr_bot_integration'']"

fun join :: "string \<Rightarrow> string list \<Rightarrow> string" where
  "join sep [] = []"
| "join sep [x] = x"
| "join sep (x # y # ys) = x @ sep @ join sep (y # ys)"

definition brahmaacharyaGate :: "gate_ctx \<Rightarrow> gate_result" where
  "brahmaacharyaGate ctx =
     (if \<not> truthy (scope ctx)
      then \<lparr>pass = False, score = Fin 0, reason = ''BRAHMACHARYA_VIOLATION: scope is required''\<rparr>
      else if the (scope ctx) \<notin> set VALIDATED_SCOPES
      then \<lparr>pass = False, score = Fin 0,
            reason = ''BRAHMACHARYA_VIOLATION: scope '' @ [sq] @ the (scope ctx) @ [sq] @
                     '' is not in validated scope list. '' @
                     ''Validated scopes: '' @ join '', '' VALIDATED_SCOPES\<rparr>
      else \<lparr>pass = True,
            score = (if truthy (regulatory_jurisdiction ctx) then decimal 90 2 else decimal 70 2),
            reason = ''BRAHMACHARYA_PASS''\<rparr>)"

text \<open>The sign \<open>\<ge>\<close> of the source's message, in UTF-8.\<close>

definition ge_sign :: string where
  "ge_sign = [CHR 0xE2, CHR 0x89, CHR 0xA5]"

definition aparigrahaGate :: "gate_ctx \<Rightarrow> gate_result" where
  "aparigrahaGate ctx =
     (let model_count = dflt (Fin 1) (model_count ctx);
          dissent_flag = dflt False (dissent_flag ctx)
      in if js_lt model_count (Fin 2) \<and> \<not> dissent_flag
         then \<lparr>pass = False, score = Fin 0,
               reason = ''APARIGRAHA_VIOLATION: assessments must use '' @ ge_sign @
                        ''2 models or carry explicit dissent_flag=true''\<rparr>
         else \<lparr>pass = True,
               score = (if js_le (Fin 3) model_count then decimal 95 2
                        else if dissent_flag then decimal 80 2 else decimal 72 2),
               reason = ''APARIGRAHA_PASS''\<rparr>)"

subsection \<open>The composite gate\<close>

record yamas_results =
  ahimsa :: gate_result
  satya :: gate_result
  asteya :: gate_result
  brahmacharya :: gate_result
  aparigraha :: gate_result

record receipt_fields_t =
  rf_constitutional_score :: number
  gate_timestamp :: string
  brahmacharya_auto_reject :: bool

record verdict =
  verdict_pass :: bool
  constitutional_score :: number
  yamas :: yamas_results
  blocked_by :: "string list"
  receipt_fields :: receipt_fields_t

text \<open>The weighted sum, added left to right as the source's expression is.\<close>

definition weighted :: "number \<Rightarrow> number \<Rightarrow> number \<Rightarrow> number \<Rightarrow> number \<Rightarrow> number" where
  "weighted a s t b p =
     js_add (js_add (js_add (js_add (js_mul (decimal 25 2) a) (js_mul (decimal 25 2) s))
                            (js_mul (decimal 15 2) t))
                    (js_mul (decimal 20 2) b))
            (js_mul (decimal 15 2) p)"

text \<open>\<open>now\<close> is the value of \<open>new Date().toISOString()\<close> at the call.\<close>

definition runAllGates ::
  "(string \<Rightarrow> string) \<Rightarrow> (string \<Rightarrow> string) \<Rightarrow> string \<Rightarrow> gate_ctx \<Rightarrow> verdict" where
  "runAllGates H U now ctx =
     (let ahimsa = ahimsaGate ctx;
          satya = satyaGate ctx;
          asteya = asteyaGate H U ctx;
          brahmacharya = brahmaacharyaGate ctx;
          aparigraha = aparigrahaGate ctx;
          scores = [(''ahimsa'', ahimsa), (''satya'', satya), (''asteya'', asteya),
                    (''brahmacharya'', brahmacharya), (''aparigraha'', aparigraha)];
          blocked_by = map (\<lambda>(name, r). name @ '': '' @ reason r)
                           (filter (\<lambda>(name, r). \<not> pass r) scores);
          brahmaAuto = (\<not> pass brahmacharya);
          constitutional_score =
            (if brahmaAuto then Fin 0
             else weighted (score ahimsa) (score satya) (score asteya) (score brahmacharya)
                    (score aparigraha));
          pass = (length blocked_by = 0 \<and> js_le (decimal 60 2) constitutional_score)
      in \<lparr>verdict_pass = pass,
          constitutional_score =
            js_div (Math_round (js_mul constitutional_score (Fin 1000))) (Fin 1000),
          yamas = \<lparr>ahimsa = ahimsa, satya = satya, asteya = asteya,
                   brahmacharya = brahmacharya, aparigraha = aparigraha\<rparr>,
          blocked_by = blocked_by,
          receipt_fields = \<lparr>rf_constitutional_score = constitutional_score,
                            gate_timestamp = now,
                            brahmacharya_auto_reject = brahmaAuto\<rparr>\<rparr>)"

section \<open>Receipt chains (kaitiaki/chain.js)\<close>

text \<open>
  The fields of a receipt that \<open>chainReceipt\<close> reads and writes; whatever else the object
  carries is the record's extension. \<open>None\<close> is \<open>null\<close> or an absent field (for
  \<open>receipt_id\<close> of the current receipt and for \<open>chain_depth\<close> also a value of another type).
\<close>

record receipt =
  receipt_id :: "string option"
  parent_receipt_id :: "string option"
  chain_depth :: "number option"
  chain_root :: "string option"

text \<open>
  The second argument: a parent receipt object, a string, or anything else
  (\<open>null\<close>, \<open>undefined\<close>, another falsy or scalar value).
\<close>

datatype 'a parent_ref = NoParent | ParentId string | ParentReceipt "'a receipt_scheme"

definition chainReceipt ::
  "'a receipt_scheme option \<Rightarrow> 'b parent_ref \<Rightarrow> error + 'a receipt_scheme" where
  "chainReceipt currentReceipt parentReceiptOrId =
     (case currentReceipt of
        None \<Rightarrow> Inl (TypeError ''currentReceipt must be an object with a string receipt_id'')
      | Some cur \<Rightarrow>
          (case receipt_id cur of
             None \<Rightarrow> Inl (TypeError ''currentReceipt must be an object with a string receipt_id'')
           | Some ownId \<Rightarrow>
               let (parentId, parentDepth, parentRoot) =
                     (case parentReceiptOrId of
                        ParentReceipt p \<Rightarrow>
                          (receipt_id p, Some (dflt (Fin 0) (chain_depth p)),
                           (case chain_root p of Some r \<Rightarrow> Some r | None \<Rightarrow> receipt_id p))
                      | ParentId s \<Rightarrow>
                          if trim s \<noteq> [] then (Some s, Some (Fin 0), Some s)
                          else (None, None, None)
                      | NoParent \<Rightarrow> (None, None, None));
                   hasParent = truthy parentId
               in Inr (if \<not> hasParent
                       then cur\<lparr>parent_receipt_id := None,
                                chain_depth := Some (Fin 0),
                                chain_root := Some ownId\<rparr>
                       else cur\<lparr>parent_receipt_id := parentId,
                                chain_depth := Some (js_add (dflt (Fin 0) parentDepth) (Fin 1)),
                                chain_root := parentRoot\<rparr>)))"

section \<open>Transport seal (kaitiaki/middleware.js)\<close>

subsection \<open>Hexadecimal strings, big integers and buffers\<close>

definition hex_val :: "char \<Rightarrow> nat option" where
  "hex_val c = (let n = (of_char c :: nat) in
     if 48 \<le> n \<and> n \<le> 57 then Some (n - 48)
     else if 97 \<le> n \<and> n \<le> 102 then Some (n - 87)
     else if 65 \<le> n \<and> n \<le> 70 then Some (n - 55)
     else None)"

definition is_hex :: "char \<Rightarrow> bool" where
  "is_hex c = (hex_val c \<noteq> None)"

text \<open>The number a string of hexadecimal digits denotes.\<close>

definition hex_nat :: "string \<Rightarrow> nat" where
  "hex_nat s = foldl (\<lambda>acc c. 16 * acc + the (hex_val c)) 0 s"

text \<open>
  \<open>BigInt('0x' + s)\<close>: white space at the end is skipped, and what is left must be a
  non-empty string of hex digits; otherwise it is a syntax error.
\<close>

definition BigInt_hex :: "string \<Rightarrow> error + nat" where
  "BigInt_hex s =
     (let digits = trimEnd s
      in if digits \<noteq> [] \<and> list_all is_hex digits then Inr (hex_nat digits)
         else Inl (SyntaxError (''Cannot convert 0x'' @ s @ '' to a BigInt'')))"

definition hexToBigInt :: "string \<Rightarrow> error + nat" where
  "hexToBigInt hex = BigInt_hex (take 16 hex)"

text \<open>\<open>x.toString(16)\<close> of a non-negative big integer and \<open>padStart\<close>.\<close>

function toString16 :: "nat \<Rightarrow> string" where
  "toString16 n = (if n < 16 then [hex_digit n] else toString16 (n div 16) @ [hex_digit (n mod 16)])"
  by pat_completeness auto
termination
  by (relation "measure id") auto

declare toString16.simps [simp del]

definition padStart :: "nat \<Rightarrow> char \<Rightarrow> string \<Rightarrow> string" where
  "padStart n c s = replicate (n - length s) c @ s"

text \<open>
  \<open>Buffer.from(s, 'hex')\<close>: one byte for each pair of hex digits, up to the first pair
  that is not one. \<open>hex_of\<close> is \<open>buf.toString('hex')\<close>.
\<close>

fun from_hex :: "string \<Rightarrow> string" where
  "from_hex (c # d # rest) =
     (case (hex_val c, hex_val d) of
        (Some h, Some l) \<Rightarrow> char_of (16 * h + l) # from_hex rest
      | _ \<Rightarrow> [])"
| "from_hex [] = []"
| "from_hex [c] = []"

definition hex_of :: "string \<Rightarrow> string" where
  "hex_of bs = concat (map (\<lambda>b. [hex_digit ((of_char b :: nat) div 16), hex_digit ((of_char b :: nat) mod 16)]) bs)"

subsection \<open>The Arnold transform\<close>

definition arnoldP :: nat where
  "arnoldP = 0xffffffffffffffffffffffffffffff61"

definition arnoldTransform :: "(string \<Rightarrow> string) \<Rightarrow> string \<Rightarrow> string \<Rightarrow> error + string" where
  "arnoldTransform H aHash bHash =
     (case hexToBigInt aHash of
        Inl err \<Rightarrow> Inl err
      | Inr a \<Rightarrow>
          (case hexToBigInt bHash of
             Inl err \<Rightarrow> Inl err
           | Inr b \<Rightarrow>
               let x = (2 * a + b) mod arnoldP;
                   y = (a + b) mod arnoldP;
                   combined = padStart 32 (CHR ''0'') (toString16 x) @
                              padStart 32 (CHR ''0'') (toString16 y)
               in Inr (H (from_hex combined))))"

text \<open>
  The mixing transform in the words of the specification: the two chain states are
  256-bit values, \<open>a\<close> and \<open>b\<close> their leading 64 bits, \<open>p\<close> the modulus, and the digest is
  taken of the two 128-bit big-endian encodings, one after the other.
\<close>

definition leading64 :: "nat \<Rightarrow> nat" where
  "leading64 s = (s mod 2 ^ 256) div 2 ^ 192"

fun big_endian :: "nat \<Rightarrow> nat \<Rightarrow> string" where
  "big_endian 0 v = []"
| "big_endian (Suc n) v = big_endian n (v div 256) @ [char_of (v mod 256)]"

definition mixing_transform_spec :: "(string \<Rightarrow> string) \<Rightarrow> nat \<Rightarrow> nat \<Rightarrow> nat \<Rightarrow> string" where
  "mixing_transform_spec H p s1 s2 =
     (let a = leading64 s1; b = leading64 s2;
          x = (2 * a + b) mod p;
          y = (a + b) mod p
      in H (big_endian 16 x @ big_endian 16 y))"

text \<open>A chain state as the code holds it: the 64 hex digits of a SHA-256 digest.\<close>

definition is_digest :: "string \<Rightarrow> bool" where
  "is_digest h = (length h = 64 \<and> list_all is_hex h)"

subsection \<open>Sealing\<close>

text \<open>
  What the platform provides: the SHA-256 hex digest of a byte string, \<open>JSON.stringify\<close> of
  a payload (it may throw, and it gives \<open>undefined\<close> for some values),
  \<open>nacl.sign.detached\<close> under the process's secret key (it may throw),
  \<open>new Date(ts).toISOString()\<close>, the process's public key in hex, and the test for a plain
  object (not \<open>null\<close>, of type object, not an array).
\<close>

record 'p platform =
  sha256 :: "string \<Rightarrow> string"
  stringify :: "'p \<Rightarrow> error + string option"
  sign_detached :: "string \<Rightarrow> error + string"
  toISOString :: "nat \<Rightarrow> string"
  PUBLIC_KEY :: string
  is_plain_object :: "'p \<Rightarrow> bool"

definition GENESIS_HASH :: "'p platform \<Rightarrow> string" where
  "GENESIS_HASH env = sha256 env (''turangawaewae_transport_'' @ take 16 (PUBLIC_KEY env))"

text \<open>
  The module's mutable state. The position counts the seals made: it starts at 0 and
  grows by one, and is a natural number here (binary64 holds every integer up to \<open>2^53\<close>).
\<close>

record chain_state =
  chainPosition :: nat
  prevState :: string
  prevPrevState :: string

definition initial_chain :: "'p platform \<Rightarrow> chain_state" where
  "initial_chain env =
     \<lparr>chainPosition = 0, prevState = GENESIS_HASH env, prevPrevState = GENESIS_HASH env\<rparr>"

record helix_t =
  hx_artifact_hash :: string
  hx_signature :: string
  hx_public_key :: string

record posc_t =
  posc_state :: string
  posc_previous_state :: string
  posc_chain_position :: nat
  posc_genesis_hash :: string

record posc_link_t =
  link_state :: string
  link_previous_state :: string
  link_chain_position :: nat

record seals_t =
  seals_artifact_hash :: string
  drand_beacon :: string
  geonet_entropy :: string
  sadi_fingerprint :: string
  posc_link :: posc_link_t

record layers_t =
  helix :: helix_t
  posc :: posc_t
  seals :: seals_t

record transport_receipt =
  kt_receipt_id :: string
  version :: string
  timestamp :: string
  kt_public_key :: string
  layers :: layers_t
  sovereign :: string
  protocol :: string

text \<open>
  One call of \<open>sealTransport\<close>: \<open>ts\<close> is what \<open>Date.now()\<close> returns in it and \<open>rnd\<close> the hex
  of its two random bytes. An exception leaves the module's state as it was.
\<close>

definition sealTransport ::
  "'p platform \<Rightarrow> chain_state \<Rightarrow> 'p \<Rightarrow> string \<Rightarrow> nat \<Rightarrow> string
     \<Rightarrow> error + (transport_receipt \<times> chain_state)" where
  "sealTransport env st payload domain ts rnd =
     (let receiptId = ''KT-'' @ dec ts @ ''-'' @ rnd
      in case stringify env payload of
           Inl err \<Rightarrow> Inl err
         | Inr None \<Rightarrow> Inl (TypeError (''The '' @ [dq] @ ''data'' @ [dq] @ '' argument must be of type string or an instance of Buffer, TypedArray, or DataView. Received undefined''))
         | Inr (Some json) \<Rightarrow>
             let cotHash = sha256 env json;
                 parseHash = sha256 env (domain @ ''|'' @ dec ts);
                 artifactHash = sha256 env (cotHash @ parseHash)
             in case sign_detached env (from_hex artifactHash) of
                  Inl err \<Rightarrow> Inl err
                | Inr sigBytes \<Rightarrow>
                    let signature = hex_of sigBytes
                    in case arnoldTransform (sha256 env) (prevPrevState st) (prevState st) of
                         Inl err \<Rightarrow> Inl err
                       | Inr arnold \<Rightarrow>
                           let state = sha256 env (artifactHash @ arnold);
                               chainPosition' = chainPosition st + 1;
                               posc = \<lparr>posc_state = state,
                                       posc_previous_state = prevState st,
                                       posc_chain_position = chainPosition',
                                       posc_genesis_hash = GENESIS_HASH env\<rparr>;
                               st' = \<lparr>chainPosition = chainPosition',
                                      prevState = state,
                                      prevPrevState = prevState st\<rparr>;
                               seals = \<lparr>seals_artifact_hash = artifactHash,
                                        drand_beacon = sha256 env (''local_drand_'' @ dec ts),
                                        geonet_entropy = sha256 env (''local_geonet_'' @ dec ts),
                                        sadi_fingerprint = sha256 env (domain @ ''|'' @ artifactHash),
                                        posc_link = \<lparr>link_state = posc_state posc,
                                                      link_previous_state = posc_previous_state posc,
                                                      link_chain_position = posc_chain_position posc\<rparr>\<rparr>
                           in Inr (\<lparr>kt_receipt_id = receiptId,
                                    version = ''3.0-transport'',
                                    timestamp = toISOString env ts,
                                    kt_public_key = PUBLIC_KEY env,
                                    layers = \<lparr>helix = \<lparr>hx_artifact_hash = artifactHash,
                                                        hx_signature = signature,
                                                        hx_public_key = PUBLIC_KEY env\<rparr>,
                                              posc = posc, seals = seals\<rparr>,
                                    sovereign = ''Regan Duff'',
                                    protocol = ''Turangawaewae Protocol v3''\<rparr>, st'))"

record compact_receipt =
  c_receipt_id :: string
  c_signature :: string
  c_artifact_hash :: string
  c_public_key :: string
  c_chain_position :: nat
  c_timestamp :: string

definition compactReceipt :: "transport_receipt \<Rightarrow> compact_receipt" where
  "compactReceipt full =
     \<lparr>c_receipt_id = kt_receipt_id full,
      c_signature = hx_signature (helix (layers full)),
      c_artifact_hash = hx_artifact_hash (helix (layers full)),
      c_public_key = kt_public_key full,
      c_chain_position = posc_chain_position (posc (layers full)),
      c_timestamp = timestamp full\<rparr>"

text \<open>A response body: the data as given, or the data with the field \<open>_kaitiaki\<close> added.\<close>

datatype 'p body = Plain 'p | Enriched 'p compact_receipt

subsection \<open>The Workers wrapper\<close>

definition kaitiakiWrapResponse ::
  "'p platform \<Rightarrow> chain_state \<Rightarrow> 'p \<Rightarrow> string option \<Rightarrow> nat \<Rightarrow> string \<Rightarrow> 'p body \<times> chain_state" where
  "kaitiakiWrapResponse env st data domain ts rnd =
     (case sealTransport env st data (dflt ''cloudflare-worker'' domain) ts rnd of
        Inl err \<Rightarrow> (Plain data, st)
      | Inr (receipt, st') \<Rightarrow>
          let compact = compactReceipt receipt
          in if is_plain_object env data then (Enriched data compact, st') else (Plain data, st'))"

subsection \<open>The Express middleware\<close>

text \<open>
  The response object of the framework: \<open>setHeader\<close> and the original \<open>res.json\<close> act on its
  state \<open>'r\<close> and may throw. \<open>kaitiakiJson\<close> is the function the middleware installs as
  \<open>res.json\<close>; it returns what the original returns, the module's state and the lines
  written to the error console.
\<close>

record ('p, 'r) response =
  setHeader :: "string \<Rightarrow> string \<Rightarrow> 'r \<Rightarrow> error + 'r"
  originalJson :: "'p body \<Rightarrow> 'r \<Rightarrow> error + 'r"

definition seal_error_line :: "error \<Rightarrow> string" where
  "seal_error_line err = ''[kaitiaki-middleware] seal error (non-fatal): '' @ message err"

definition kaitiakiJson ::
  "'p platform \<Rightarrow> ('p, 'r) response \<Rightarrow> string \<Rightarrow> string \<Rightarrow> chain_state \<Rightarrow> 'r \<Rightarrow> 'p \<Rightarrow> nat \<Rightarrow> string
     \<Rightarrow> (error + 'r) \<times> chain_state \<times> string list" where
  "kaitiakiJson env rsp method path st res data ts rnd =
     (let domain = method @ '' '' @ path
      in case sealTransport env st data domain ts rnd of
           Inl err \<Rightarrow> (originalJson rsp (Plain data) res, st, [seal_error_line err])
         | Inr (receipt, st') \<Rightarrow>
             let compact = compactReceipt receipt
             in case setHeader rsp ''X-Kaitiaki-Receipt-Id'' (c_receipt_id compact) res of
                  Inl err \<Rightarrow> (originalJson rsp (Plain data) res, st', [seal_error_line err])
                | Inr res1 \<Rightarrow>
                    (case setHeader rsp ''X-Kaitiaki-Chain-Position''
                            (dec (c_chain_position compact)) res1 of
                       Inl err \<Rightarrow> (originalJson rsp (Plain data) res1, st', [seal_error_line err])
                     | Inr res2 \<Rightarrow>
                         (case setHeader rsp ''X-Kaitiaki-Public-Key''
                                 (take 16 (c_public_key compact) @ ''...'') res2 of
                            Inl err \<Rightarrow>
                              (originalJson rsp (Plain data) res2, st', [seal_error_line err])
                          | Inr res3 \<Rightarrow>
                              if is_plain_object env data
                              then (case originalJson rsp (Enriched data compact) res3 of
                                      Inl err \<Rightarrow>
                                        (originalJson rsp (Plain data) res3, st',
                                         [seal_error_line err])
                                    | Inr res4 \<Rightarrow> (Inr res4, st', []))
                              else (originalJson rsp (Plain data) res3, st', []))))"

text \<open>
  A run of seal calls, one after the other, each with its payload, domain, clock reading
  and random bytes; an exception ends the run.
\<close>

fun seal_calls ::
  "'p platform \<Rightarrow> chain_state \<Rightarrow> ('p \<times> string \<times> nat \<times> string) list
     \<Rightarrow> error + (transport_receipt list \<times> chain_state)" where
  "seal_calls env st [] = Inr ([], st)"
| "seal_calls env st ((payload, domain, ts, rnd) # calls) =
     (case sealTransport env st payload domain ts rnd of
        Inl err \<Rightarrow> Inl err
      | Inr (receipt, st') \<Rightarrow>
          (case seal_calls env st' calls of
             Inl err \<Rightarrow> Inl err
           | Inr (receipts, st'') \<Rightarrow> Inr (receipt # receipts, st'')))"

section \<open>Auxiliary definitions and concrete inputs\<close>

text \<open>The \<open>n\<close> low hexadecimal digits of a number, most significant first.\<close>

fun hex_fixed :: "nat \<Rightarrow> nat \<Rightarrow> string" where
  "hex_fixed 0 x = []"
| "hex_fixed (Suc n) x = hex_fixed n (x div 16) @ [hex_digit (x mod 16)]"

text \<open>
  A reader for what \<open>json_string\<close> writes: from the input after the opening quote, the
  string that the literal stands for and the input after its closing quote.
\<close>

definition unescape :: "char \<Rightarrow> char option" where
  "unescape e =
     (if e = dq then Some dq
      else if e = bslash then Some bslash
      else if e = CHR ''b'' then Some (CHR 0x08)
      else if e = CHR ''t'' then Some (CHR 0x09)
      else if e = CHR ''n'' then Some (CHR 0x0A)
      else if e = CHR ''f'' then Some (CHR 0x0C)
      else if e = CHR ''r'' then Some (CHR 0x0D)
      else None)"

definition cons_read :: "char \<Rightarrow> (string \<times> string) option \<Rightarrow> (string \<times> string) option" where
  "cons_read c r = map_option (\<lambda>(t, rest). (c # t, rest)) r"

function read_chars :: "string \<Rightarrow> (string \<times> string) option" where
  "read_chars s =
     (case s of
        [] \<Rightarrow> None
      | c # cs \<Rightarrow>
          if c = dq then Some ([], cs)
          else if c \<noteq> bslash then cons_read c (read_chars cs)
          else (case cs of
                  [] \<Rightarrow> None
                | e # r \<Rightarrow>
                    if e \<noteq> CHR ''u'' then
                      (case unescape e of None \<Rightarrow> None | Some d \<Rightarrow> cons_read d (read_chars r))
                    else (case (map hex_val (take 4 r)) of
                            [Some a, Some b, Some h, Some l] \<Rightarrow>
                              if a = 0 \<and> b = 0 then cons_read (char_of (16 * h + l)) (read_chars (drop 4 r))
                              else None
                          | _ \<Rightarrow> None)))"
  by pat_completeness auto
termination
  by (relation "measure length") auto

declare read_chars.simps [simp del]

text \<open>
  The theorems below hold for every digest function. Closed instances need one: this
  stand-in gives the digest of 64 zero digits for every input.
\<close>

definition zero_digest :: "string \<Rightarrow> string" where
  "zero_digest bs = ''0000000000000000000000000000000000000000000000000000000000000000''"

text \<open>A case conversion that leaves the characters beyond ASCII as they are.\<close>

definition plain_lower :: "string \<Rightarrow> string" where
  "plain_lower s = map lower_char s"

text \<open>
  The request of the specification's end-to-end example, for a digest function \<open>H\<close>, a
  case conversion \<open>U\<close> and a confidence \<open>c\<close>: the consent record id is the one generated for
  its cohort, scope and clinician.
\<close>

definition example_ctx :: "(string \<Rightarrow> string) \<Rightarrow> (string \<Rightarrow> string) \<Rightarrow> number \<Rightarrow> gate_ctx" where
  "example_ctx H U c =
     \<lparr>consent_record_id =
        (case generateConsentRecordId H U (Some ''nz-smokers'') (Some ''population_mortality'')
                (Some ''clin-1'') of
           Inr anchor \<Rightarrow> Some anchor | Inl err \<Rightarrow> None),
      cohort = Some ''nz-smokers'', scope = Some ''population_mortality'',
      clinician_id = Some ''clin-1'', confidence = Some (JNum c),
      data_quality = Some ''good'', model_version = Some ''v1'', model_count = Some (Fin 2),
      population_size = None, patient_facing = None, assessment_type = None,
      regulatory_jurisdiction = Some ''nz'', dissent_flag = None, equity_flag = None\<rparr>"

text \<open>
  The same request for a scope outside the validated list; its consent record id is the
  one generated under \<open>zero_digest\<close>.
\<close>

definition astrology_ctx :: gate_ctx where
  "astrology_ctx =
     \<lparr>consent_record_id = Some ''CR-00000000000000000000000000000000'',
      cohort = Some ''nz-smokers'', scope = Some ''astrology'',
      clinician_id = Some ''clin-1'', confidence = Some (JNum (decimal 75 2)),
      data_quality = Some ''good'', model_version = Some ''v1'', model_count = Some (Fin 2),
      population_size = None, patient_facing = None, assessment_type = None,
      regulatory_jurisdiction = Some ''nz'', dissent_flag = None, equity_flag = None\<rparr>"

text \<open>The context with no field at all, and one with only a confidence.\<close>

definition empty_ctx :: gate_ctx where
  "empty_ctx =
     \<lparr>consent_record_id = None, cohort = None, scope = None, clinician_id = None,
      confidence = None, data_quality = None, model_version = None, model_count = None,
      population_size = None, patient_facing = None, assessment_type = None,
      regulatory_jurisdiction = None, dissent_flag = None, equity_flag = None\<rparr>"

definition confident_ctx :: gate_ctx where
  "confident_ctx = empty_ctx\<lparr>confidence := Some (JNum (decimal 75 2))\<rparr>"

text \<open>The reason the truthfulness gate gives for the data quality "unknown".\<close>

definition unknown_quality_reason :: string where
  "unknown_quality_reason =
     ''SATYA_VIOLATION: data_quality '' @ [sq] @ ''unknown'' @ [sq] @
     '' is insufficient for actuarial assessment''"

definition gate_time :: string where
  "gate_time = ''2026-02-24T00:00:00.000Z''"

text \<open>A fresh local receipt and a parent receipt at depth 2 of a chain rooted elsewhere.\<close>

definition local_receipt :: receipt where
  "local_receipt = \<lparr>receipt_id = Some ''KT-1771891200000-1a2b'', parent_receipt_id = None,
                     chain_depth = None, chain_root = None\<rparr>"

definition parent_at_2 :: receipt where
  "parent_at_2 = \<lparr>receipt_id = Some ''KT-1771891100000-9f3c'',
                   parent_receipt_id = Some ''KT-1771891000000-77aa'',
                   chain_depth = Some (Fin 2), chain_root = Some ''KT-1771890000000-0001''\<rparr>"

text \<open>The SHA-256 digests of the empty string and of \<open>abc\<close>, as two chain states.\<close>

definition digest_empty :: string where
  "digest_empty = ''e3b0c44298fc1c149afbf4c8996fb92427ae41e4649b934ca495991b7852b855''"

definition digest_abc :: string where
  "digest_abc = ''ba7816bf8f01cfea414140de5dae2223b00361a396177a9cb410ff61f20015ad''"

text \<open>
  A platform for closed instances: payloads are their own JSON text, the signer returns
  its message, the key is all zero. In the second one serialization throws on an object
  that refers to itself, written \<open>circular_data\<close>; in the third the signer throws on every
  message, as it does on a secret key of the wrong size.
\<close>

definition demo_platform :: "string platform" where
  "demo_platform =
     \<lparr>sha256 = zero_digest,
      stringify = (\<lambda>p. Inr (Some p)),
      sign_detached = (\<lambda>m. Inr m),
      toISOString = dec,
      PUBLIC_KEY = ''0000000000000000000000000000000000000000000000000000000000000000'',
      is_plain_object = (\<lambda>p. take 1 p = ''{'')\<rparr>"

definition circular_data :: string where
  "circular_data = ''{self: [Circular]}''"

definition failing_platform :: "string platform" where
  "failing_platform =
     demo_platform\<lparr>stringify :=
       (\<lambda>p. if p = circular_data then Inl (TypeError ''Converting circular structure to JSON'')
            else Inr (Some p))\<rparr>"

definition unsigned_platform :: "string platform" where
  "unsigned_platform = demo_platform\<lparr>sign_detached := (\<lambda>m. Inl (Error ''bad secret key size''))\<rparr>"

text \<open>A response object that records the headers set and the bodies sent.\<close>

definition demo_response :: "(string, (string \<times> string) list \<times> string body list) response" where
  "demo_response =
     \<lparr>setHeader = (\<lambda>k v (hs, bs). Inr (hs @ [(k, v)], bs)),
      originalJson = (\<lambda>b (hs, bs). Inr (hs, bs @ [b]))\<rparr>"

text \<open>
  A response object whose \<open>res.json\<close> serializes the body with the platform's serializer
  before it sends it, and throws what the serializer throws. The receipt added to a body
  is strings and a number, so the body is serialized when the data is.
\<close>

definition serializing_response ::
  "string platform \<Rightarrow> (string, (string \<times> string) list \<times> string body list) response" where
  "serializing_response env =
     \<lparr>setHeader = (\<lambda>k v (hs, bs). Inr (hs @ [(k, v)], bs)),
      originalJson = (\<lambda>b (hs, bs).
         case stringify env (case b of Plain d \<Rightarrow> d | Enriched d c \<Rightarrow> d) of
           Inl err \<Rightarrow> Inl err
         | Inr json \<Rightarrow> Inr (hs, bs @ [b]))\<rparr>"

definition three_calls :: "(string \<times> string \<times> nat \<times> string) list" where
  "three_calls =
     [(''{}'', ''GET /api/health'', 1771891200000, ''1a2b''),
      (''[1,2]'', ''GET /api/list'', 1771891200001, ''3c4d''),
      (''{}'', ''POST /api/v1/assess'', 1771891200002, ''5e6f'')]"

section \<open>Evaluation of the numeric constants\<close>

text \<open>The rounding on sums, products and quotients whose binary64 results are well known.\<close>

lemma binary64_known_values:
  "decimal 1 1 = Fin (3602879701896397 / 36028797018963968)"
  "js_add (decimal 1 1) (decimal 2 1) = decimal 30000000000000004 17"
  "js_add (decimal 1 1) (decimal 2 1) \<noteq> decimal 3 1"
  "js_mul (decimal 11 1) (decimal 11 1) = decimal 12100000000000002 16"
  "js_mul (decimal 435 2) (Fin 100) = decimal 43499999999999994 14"
  "js_div (Fin 1) (Fin 3) = decimal 3333333333333333 16"
  "js_add (Fin 9007199254740992) (Fin 1) = Fin 9007199254740992"
  by code_simp+

lemma zero_rounds: "js_div (Math_round (js_mul (Fin 0) (Fin 1000))) (Fin 1000) = Fin 0"
  by code_simp

lemma zero_below_threshold: "\<not> js_le (decimal 60 2) (Fin 0)"
  by code_simp

lemma zero_confidence_checks:
  "\<not> js_lt (Fin 0) (Fin 0)" "\<not> js_lt (Fin 1) (Fin 0)" "js_lt (Fin 0) (decimal 60 2)"
  by code_simp+

lemma conf_075_checks:
  "\<not> js_lt (decimal 75 2) (Fin 0)" "\<not> js_lt (Fin 1) (decimal 75 2)"
  "\<not> js_lt (decimal 75 2) (decimal 60 2)"
  by code_simp+

lemma conf_045_checks:
  "\<not> js_lt (decimal 45 2) (Fin 0)" "\<not> js_lt (Fin 1) (decimal 45 2)"
  "js_lt (decimal 45 2) (decimal 60 2)"
  by code_simp+

lemma satya_score_075:
  "Math_min (Fin 1) (js_mul (decimal 75 2) (decimal 11 1))
     = Fin (7430939385161319 / 9007199254740992)"
  by code_simp

lemma product_075: "js_mul (decimal 75 2) (decimal 11 1) = Fin (7430939385161319 / 9007199254740992)"
  by code_simp

lemma literal_0825: "decimal 825 3 = Fin (7430939385161318 / 9007199254740992)"
  by code_simp

lemma weighted_example:
  "weighted (decimal 95 2) (Fin (7430939385161319 / 9007199254740992)) (decimal 95 2)
     (decimal 90 2) (decimal 72 2) = decimal 87425 5"
  by code_simp

lemma weighted_block:
  "weighted (decimal 95 2) (Fin 0) (decimal 95 2) (decimal 90 2) (decimal 72 2) = decimal 668 3"
  by code_simp

lemma round_example:
  "js_div (Math_round (js_mul (decimal 87425 5) (Fin 1000))) (Fin 1000) = decimal 874 3"
  by code_simp

lemma round_block:
  "js_div (Math_round (js_mul (decimal 668 3) (Fin 1000))) (Fin 1000) = decimal 668 3"
  by code_simp

lemma threshold_example: "js_le (decimal 60 2) (decimal 87425 5)"
  by code_simp

lemma threshold_block: "js_le (decimal 60 2) (decimal 668 3)"
  by code_simp

lemma toFixed3_045: "toFixed3 (decimal 45 2) = ''0.450''"
  by code_simp

lemma toFixed3_zero: "toFixed3 (Fin 0) = ''0.000''"
  by code_simp

lemma toFixed3_satya: "toFixed3 (Fin (7430939385161319 / 9007199254740992)) = ''0.825''"
  by code_simp

lemma satya_not_literal: "Fin (7430939385161319 / 9007199254740992) \<noteq> decimal 825 3"
  by code_simp

lemma block_not_06565: "decimal 668 3 \<noteq> decimal 6565 4"
  by code_simp

lemma depth_sums: "js_add (Fin 0) (Fin 1) = Fin 1" "js_add (Fin 2) (Fin 1) = Fin 3"
  by code_simp+

section \<open>Hexadecimal digits\<close>

lemma hex_val_hex_digit: "d < 16 \<Longrightarrow> hex_val (hex_digit d) = Some d"
  by (auto simp: hex_val_def hex_digit_def Let_def)

lemma hex_val_less: "hex_val c = Some d \<Longrightarrow> d < 16"
  by (auto simp: hex_val_def Let_def split: if_splits)

section \<open>The consent anchor\<close>

text \<open>
  On ASCII strings the case conversion is computed, whatever the engine's tables are, and
  the canonical form is that of the trimmed, lower-cased values.
\<close>

lemma toLowerCase_ascii: "is_ascii s \<Longrightarrow> toLowerCase U s = map lower_char s"
  by (simp add: toLowerCase_def)

lemma toLowerCase_beyond_ascii: "\<not> is_ascii s \<Longrightarrow> toLowerCase U s = U s"
  by (simp add: toLowerCase_def)

lemma canonical_normalizes:
  "canonical U '' NZ-Smokers'' ''Population_Mortality '' '' clin-1''
     = canonical U ''nz-smokers'' ''population_mortality'' ''clin-1''"
  "toLowerCase U ''NZ-Smokers'' = ''nz-smokers''"
  "toLowerCase U [CHR 0xC3, CHR 0x89] = U [CHR 0xC3, CHR 0x89]"
  by code_simp+

lemma generate_nonempty:
  assumes "g \<noteq> []" "s \<noteq> []" "a \<noteq> []"
  shows "generateConsentRecordId H U (Some g) (Some s) (Some a)
           = Inr (''CR-'' @ take 32 (H (canonical U g s a)))"
  using assms by (simp add: generateConsentRecordId_def)

lemma validate_generated:
  assumes "generateConsentRecordId H U co sc cl = Inr anchor"
  shows "validateConsentRecord H U (Some anchor) co sc cl
           = \<lparr>valid = True, vreason = ''CONSENT_VALID''\<rparr>"
proof -
  from assms obtain d where "anchor = ''CR-'' @ d"
    by (auto simp: generateConsentRecordId_def split: if_splits)
  then have "truthy (Some anchor)" "startsWith anchor ''CR-''"
    by (simp_all add: startsWith_def)
  with assms show ?thesis
    by (simp add: validateConsentRecord_def)
qed

text \<open>
  C4. Round trip of the consent anchor: for non-empty cohort, scope and clinician the id
  is generated, and validating it against the same three values succeeds.
\<close>

theorem consent_round_trip:
  assumes "g \<noteq> []" "s \<noteq> []" "a \<noteq> []"
  shows "\<exists>anchor. generateConsentRecordId H U (Some g) (Some s) (Some a) = Inr anchor \<and>
           valid (validateConsentRecord H U (Some anchor) (Some g) (Some s) (Some a))"
  using generate_nonempty [OF assms, of H U] validate_generated [of H U "Some g" "Some s" "Some a"]
  by simp

theorem consent_round_trip_witness:
  "''nz-smokers'' \<noteq> [] \<and> ''population_mortality'' \<noteq> [] \<and> ''clin-1'' \<noteq> [] \<and>
   generateConsentRecordId zero_digest plain_lower (Some ''nz-smokers'') (Some ''population_mortality'')
     (Some ''clin-1'') = Inr ''CR-00000000000000000000000000000000'' \<and>
   valid (validateConsentRecord zero_digest plain_lower (Some ''CR-00000000000000000000000000000000'')
     (Some ''nz-smokers'') (Some ''population_mortality'') (Some ''clin-1''))"
proof -
  have g: "generateConsentRecordId zero_digest plain_lower (Some ''nz-smokers'')
             (Some ''population_mortality'') (Some ''clin-1'')
           = Inr ''CR-00000000000000000000000000000000''"
    by (simp add: generateConsentRecordId_def zero_digest_def)
  from consent_round_trip [of "''nz-smokers''" "''population_mortality''" "''clin-1''" zero_digest
      plain_lower]
  show ?thesis unfolding g by simp
qed

subsection \<open>The canonical form determines the normalized values\<close>

lemma read_dq: "read_chars (CHR 0x22 # rest) = Some ([], rest)"
  by (subst read_chars.simps) (simp add: dq_def)

lemma read_plain:
  "c \<noteq> CHR 0x22 \<Longrightarrow> c \<noteq> CHR 0x5C \<Longrightarrow> read_chars (c # rest) = cons_read c (read_chars rest)"
  by (subst read_chars.simps) (simp add: dq_def bslash_def)

lemma read_short:
  "e \<noteq> CHR ''u'' \<Longrightarrow> unescape e = Some d \<Longrightarrow>
     read_chars (CHR 0x5C # e # rest) = cons_read d (read_chars rest)"
  by (subst read_chars.simps) (simp add: dq_def bslash_def)

lemma read_long:
  assumes "h < 16" "l < 16"
  shows "read_chars (CHR 0x5C # CHR ''u'' # CHR ''0'' # CHR ''0'' # hex_digit h # hex_digit l # rest)
           = cons_read (char_of (16 * h + l)) (read_chars rest)"
proof -
  have z: "hex_val (CHR ''0'') = Some 0"
    by (simp add: hex_val_def)
  show ?thesis
    using assms by (subst read_chars.simps) (simp add: dq_def bslash_def z hex_val_hex_digit)
qed

lemma unescape_values:
  "unescape (CHR 0x22) = Some (CHR 0x22)" "unescape (CHR 0x5C) = Some (CHR 0x5C)"
  "unescape (CHR ''b'') = Some (CHR 0x08)" "unescape (CHR ''t'') = Some (CHR 0x09)"
  "unescape (CHR ''n'') = Some (CHR 0x0A)" "unescape (CHR ''f'') = Some (CHR 0x0C)"
  "unescape (CHR ''r'') = Some (CHR 0x0D)"
  by (simp_all add: unescape_def dq_def bslash_def)

lemma control_chars:
  "char_of (8 :: nat) = CHR 0x08" "char_of (9 :: nat) = CHR 0x09" "char_of (10 :: nat) = CHR 0x0A"
  "char_of (12 :: nat) = CHR 0x0C" "char_of (13 :: nat) = CHR 0x0D"
  by code_simp+

lemma read_escape: "read_chars (json_escape c @ rest) = cons_read c (read_chars rest)"
proof -
  define n where "n = (of_char c :: nat)"
  have c: "c = char_of n"
    by (simp add: n_def)
  consider "c = CHR 0x22" | "c = CHR 0x5C" | "n = 8" | "n = 9" | "n = 10" | "n = 12" | "n = 13"
    | "n < 32" "n \<notin> {8, 9, 10, 12, 13}" "c \<noteq> CHR 0x22" "c \<noteq> CHR 0x5C"
    | "\<not> n < 32" "c \<noteq> CHR 0x22" "c \<noteq> CHR 0x5C"
    by blast
  then show ?thesis
  proof cases
    case 1
    then have "json_escape c = [CHR 0x5C, CHR 0x22]"
      by (simp add: json_escape_def dq_def bslash_def)
    with 1 show ?thesis
      by (simp add: read_short unescape_values)
  next
    case 2
    then have "json_escape c = [CHR 0x5C, CHR 0x5C]"
      by (simp add: json_escape_def dq_def bslash_def)
    with 2 show ?thesis
      by (simp add: read_short unescape_values)
  next
    case 3
    with c have v: "c = CHR 0x08"
      by (simp add: control_chars)
    have "json_escape c = [CHR 0x5C, CHR ''b'']"
      unfolding v by (simp add: json_escape_def dq_def bslash_def)
    with v show ?thesis
      by (simp add: read_short unescape_values)
  next
    case 4
    with c have v: "c = CHR 0x09"
      by (simp add: control_chars)
    have "json_escape c = [CHR 0x5C, CHR ''t'']"
      unfolding v by (simp add: json_escape_def dq_def bslash_def)
    with v show ?thesis
      by (simp add: read_short unescape_values)
  next
    case 5
    with c have v: "c = CHR 0x0A"
      by (simp add: control_chars)
    have "json_escape c = [CHR 0x5C, CHR ''n'']"
      unfolding v by (simp add: json_escape_def dq_def bslash_def)
    with v show ?thesis
      by (simp add: read_short unescape_values)
  next
    case 6
    with c have v: "c = CHR 0x0C"
      by (simp add: control_chars)
    have "json_escape c = [CHR 0x5C, CHR ''f'']"
      unfolding v by (simp add: json_escape_def dq_def bslash_def)
    with v show ?thesis
      by (simp add: read_short unescape_values)
  next
    case 7
    with c have v: "c = CHR 0x0D"
      by (simp add: control_chars)
    have "json_escape c = [CHR 0x5C, CHR ''r'']"
      unfolding v by (simp add: json_escape_def dq_def bslash_def)
    with v show ?thesis
      by (simp add: read_short unescape_values)
  next
    case 8
    then have e: "json_escape c
        = [CHR 0x5C, CHR ''u'', CHR ''0'', CHR ''0'', hex_digit (n div 16), hex_digit (n mod 16)]"
      by (simp add: json_escape_def n_def [symmetric] dq_def bslash_def)
    have "n div 16 < 16" "n mod 16 < 16"
      using 8(1) by simp_all
    then have "read_chars (json_escape c @ rest)
        = cons_read (char_of (16 * (n div 16) + n mod 16)) (read_chars rest)"
      unfolding e by (simp add: read_long)
    then show ?thesis
      by (simp add: c)
  next
    case 9
    then have "json_escape c = [c]"
      by (simp add: json_escape_def n_def [symmetric] dq_def bslash_def)
    with 9 show ?thesis
      by (simp add: read_plain)
  qed
qed

lemma read_written: "read_chars (concat (map json_escape u) @ dq # rest) = Some (u, rest)"
proof (induction u)
  case Nil
  show ?case by (simp add: read_dq dq_def)
next
  case (Cons c u)
  have "read_chars (json_escape c @ (concat (map json_escape u) @ dq # rest))
          = cons_read c (read_chars (concat (map json_escape u) @ dq # rest))"
    by (rule read_escape)
  then show ?case
    by (simp add: Cons.IH cons_read_def)
qed

lemma json_string_unique:
  assumes "json_string u @ x = json_string v @ y"
  shows "u = v \<and> x = y"
proof -
  from assms have "concat (map json_escape u) @ dq # x = concat (map json_escape v) @ dq # y"
    by (simp add: json_string_def)
  then have "read_chars (concat (map json_escape u) @ dq # x)
               = read_chars (concat (map json_escape v) @ dq # y)"
    by simp
  then show ?thesis
    by (simp add: read_written)
qed

lemma canonical_determines:
  assumes "canonical U g s a = canonical U g' s' a'"
  shows "toLowerCase U (trim g) = toLowerCase U (trim g') \<and>
         toLowerCase U (trim s) = toLowerCase U (trim s') \<and> trim a = trim a'"
proof -
  from assms have 1:
    "json_string (toLowerCase U (trim g)) @
       ('','' @ json_string ''scope'' @ '':'' @ json_string (toLowerCase U (trim s)) @
        '','' @ json_string ''clinician_id'' @ '':'' @ json_string (trim a) @ ''}'')
     = json_string (toLowerCase U (trim g')) @
       ('','' @ json_string ''scope'' @ '':'' @ json_string (toLowerCase U (trim s')) @
        '','' @ json_string ''clinician_id'' @ '':'' @ json_string (trim a') @ ''}'')"
    by (simp add: canonical_def)
  note g = json_string_unique [OF 1]
  from g have 2:
    "json_string (toLowerCase U (trim s)) @
       ('','' @ json_string ''clinician_id'' @ '':'' @ json_string (trim a) @ ''}'')
     = json_string (toLowerCase U (trim s')) @
       ('','' @ json_string ''clinician_id'' @ '':'' @ json_string (trim a') @ ''}'')"
    by simp
  note s = json_string_unique [OF 2]
  from s have 3: "json_string (trim a) @ ''}'' = json_string (trim a') @ ''}''"
    by simp
  note a = json_string_unique [OF 3]
  from g s a show ?thesis
    by simp
qed

text \<open>
  Swapping cohort and scope: equal ids for different normalized values are a collision
  of the first 32 digest characters on two different canonical strings.
\<close>

lemma swap_is_collision:
  assumes "g \<noteq> []" "s \<noteq> []" "a \<noteq> []"
    and "generateConsentRecordId H U (Some s) (Some g) (Some a)
           = generateConsentRecordId H U (Some g) (Some s) (Some a)"
    and "toLowerCase U (trim g) \<noteq> toLowerCase U (trim s)"
  shows "canonical U s g a \<noteq> canonical U g s a \<and>
         take 32 (H (canonical U s g a)) = take 32 (H (canonical U g s a))"
proof -
  have "canonical U s g a \<noteq> canonical U g s a"
    using canonical_determines [of U s g a g s a] assms(5) by auto
  moreover have "take 32 (H (canonical U s g a)) = take 32 (H (canonical U g s a))"
    using assms(1-4) by (simp add: generate_nonempty)
  ultimately show ?thesis ..
qed

section \<open>The gates on the example request\<close>

lemma example_fields:
  "cohort (example_ctx H U c) = Some ''nz-smokers''"
  "scope (example_ctx H U c) = Some ''population_mortality''"
  "clinician_id (example_ctx H U c) = Some ''clin-1''"
  "confidence (example_ctx H U c) = Some (JNum c)"
  "data_quality (example_ctx H U c) = Some ''good''"
  "model_version (example_ctx H U c) = Some ''v1''"
  "model_count (example_ctx H U c) = Some (Fin 2)"
  "population_size (example_ctx H U c) = None"
  "patient_facing (example_ctx H U c) = None"
  "assessment_type (example_ctx H U c) = None"
  "regulatory_jurisdiction (example_ctx H U c) = Some ''nz''"
  "dissent_flag (example_ctx H U c) = None"
  "equity_flag (example_ctx H U c) = None"
  by (simp_all add: example_ctx_def)

lemma example_token:
  "\<exists>anchor. consent_record_id (example_ctx H U c) = Some anchor \<and> anchor \<noteq> [] \<and>
     generateConsentRecordId H U (Some ''nz-smokers'') (Some ''population_mortality'')
       (Some ''clin-1'') = Inr anchor"
  by (simp add: example_ctx_def generateConsentRecordId_def)

lemma example_asteya:
  "asteyaGate H U (example_ctx H U c)
     = \<lparr>pass = True, score = decimal 95 2, reason = ''ASTEYA_PASS''\<rparr>"
proof -
  obtain anchor where a: "consent_record_id (example_ctx H U c) = Some anchor" "anchor \<noteq> []"
    "generateConsentRecordId H U (Some ''nz-smokers'') (Some ''population_mortality'')
       (Some ''clin-1'') = Inr anchor"
    using example_token by blast
  show ?thesis
    by (simp add: asteyaGate_def a(1,2) example_fields validate_generated [OF a(3)])
qed

lemma example_ahimsa:
  "ahimsaGate (example_ctx H U c)
     = \<lparr>pass = True, score = decimal 95 2, reason = ''AHIMSA_PASS''\<rparr>"
  by (simp add: ahimsaGate_def example_fields FORBIDDEN_TYPES_def)

lemma example_brahmacharya:
  "brahmaacharyaGate (example_ctx H U c)
     = \<lparr>pass = True, score = decimal 90 2, reason = ''BRAHMACHARYA_PASS''\<rparr>"
  by (simp add: brahmaacharyaGate_def example_fields VALIDATED_SCOPES_def)

lemma example_aparigraha:
  "aparigrahaGate (example_ctx H U c)
     = \<lparr>pass = True, score = decimal 72 2, reason = ''APARIGRAHA_PASS''\<rparr>"
  by (simp add: aparigrahaGate_def example_fields)

lemma example_satya_075:
  "satyaGate (example_ctx H U (decimal 75 2))
     = \<lparr>pass = True, score = Fin (7430939385161319 / 9007199254740992),
        reason = ''SATYA_PASS''\<rparr>"
  by (simp add: satyaGate_def example_fields conf_075_checks satya_score_075)

lemma example_satya_045:
  "satyaGate (example_ctx H U (decimal 45 2))
     = \<lparr>pass = False, score = Fin 0,
        reason = ''SATYA_VIOLATION: confidence 0.450 < minimum 0.60''\<rparr>"
  by (simp add: satyaGate_def example_fields conf_045_checks toFixed3_045)

lemma run_example_075:
  "runAllGates H U now (example_ctx H U (decimal 75 2)) =
     \<lparr>verdict_pass = True,
      constitutional_score = decimal 874 3,
      yamas = \<lparr>ahimsa = \<lparr>pass = True, score = decimal 95 2, reason = ''AHIMSA_PASS''\<rparr>,
               satya = \<lparr>pass = True, score = Fin (7430939385161319 / 9007199254740992),
                        reason = ''SATYA_PASS''\<rparr>,
               asteya = \<lparr>pass = True, score = decimal 95 2, reason = ''ASTEYA_PASS''\<rparr>,
               brahmacharya = \<lparr>pass = True, score = decimal 90 2,
                               reason = ''BRAHMACHARYA_PASS''\<rparr>,
               aparigraha = \<lparr>pass = True, score = decimal 72 2,
                             reason = ''APARIGRAHA_PASS''\<rparr>\<rparr>,
      blocked_by = [],
      receipt_fields = \<lparr>rf_constitutional_score = decimal 87425 5,
                        gate_timestamp = now, brahmacharya_auto_reject = False\<rparr>\<rparr>"
  by (simp add: runAllGates_def example_ahimsa example_satya_075 example_asteya
        example_brahmacharya example_aparigraha weighted_example round_example
        threshold_example Let_def)

lemma run_example_045:
  "runAllGates H U now (example_ctx H U (decimal 45 2)) =
     \<lparr>verdict_pass = False,
      constitutional_score = decimal 668 3,
      yamas = \<lparr>ahimsa = \<lparr>pass = True, score = decimal 95 2, reason = ''AHIMSA_PASS''\<rparr>,
               satya = \<lparr>pass = False, score = Fin 0,
                        reason = ''SATYA_VIOLATION: confidence 0.450 < minimum 0.60''\<rparr>,
               asteya = \<lparr>pass = True, score = decimal 95 2, reason = ''ASTEYA_PASS''\<rparr>,
               brahmacharya = \<lparr>pass = True, score = decimal 90 2,
                               reason = ''BRAHMACHARYA_PASS''\<rparr>,
               aparigraha = \<lparr>pass = True, score = decimal 72 2,
                             reason = ''APARIGRAHA_PASS''\<rparr>\<rparr>,
      blocked_by = [''satya: SATYA_VIOLATION: confidence 0.450 < minimum 0.60''],
      receipt_fields = \<lparr>rf_constitutional_score = decimal 668 3,
                        gate_timestamp = now, brahmacharya_auto_reject = False\<rparr>\<rparr>"
  by (simp add: runAllGates_def example_ahimsa example_satya_045 example_asteya
        example_brahmacharya example_aparigraha weighted_block round_block
        threshold_block Let_def)

text \<open>
  C2 (amended). On the example request (confidence 0.75) the five gates pass with the
  scores 0.95, the binary64 product of 0.75 and 1.1, 0.95, 0.90 and 0.72; the composite,
  rounded to three decimals, is 0.874 and the verdict passes. The truthfulness score is
  0.8250000000000001, one unit in the last place above the literal 0.825, and prints as
  0.825 with three decimals.
\<close>

theorem end_to_end_example:
  "runAllGates H U now (example_ctx H U (decimal 75 2)) =
     \<lparr>verdict_pass = True,
      constitutional_score = decimal 874 3,
      yamas = \<lparr>ahimsa = \<lparr>pass = True, score = decimal 95 2, reason = ''AHIMSA_PASS''\<rparr>,
               satya = \<lparr>pass = True, score = js_mul (decimal 75 2) (decimal 11 1),
                        reason = ''SATYA_PASS''\<rparr>,
               asteya = \<lparr>pass = True, score = decimal 95 2, reason = ''ASTEYA_PASS''\<rparr>,
               brahmacharya = \<lparr>pass = True, score = decimal 90 2,
                               reason = ''BRAHMACHARYA_PASS''\<rparr>,
               aparigraha = \<lparr>pass = True, score = decimal 72 2,
                             reason = ''APARIGRAHA_PASS''\<rparr>\<rparr>,
      blocked_by = [],
      receipt_fields = \<lparr>rf_constitutional_score = decimal 87425 5,
                        gate_timestamp = now, brahmacharya_auto_reject = False\<rparr>\<rparr> \<and>
   js_mul (decimal 75 2) (decimal 11 1) = Fin (7430939385161319 / 9007199254740992) \<and>
   decimal 825 3 = Fin (7430939385161318 / 9007199254740992) \<and>
   toFixed3 (js_mul (decimal 75 2) (decimal 11 1)) = ''0.825''"
  by (simp only: run_example_075 product_075 literal_0825 toFixed3_satya simp_thms)

text \<open>C2 as stated fails: the truthfulness score of the example is not the number 0.825.\<close>

theorem end_to_end_example_counterexample:
  "score (satya (yamas (runAllGates zero_digest plain_lower gate_time
     (example_ctx zero_digest plain_lower (decimal 75 2))))) \<noteq> decimal 825 3"
  by (simp only: run_example_075 verdict.simps yamas_results.simps gate_result.simps
        satya_not_literal simp_thms)

text \<open>
  C3 (amended). On the example request with confidence 0.45 the truthfulness gate fails
  with score 0 while the boundary gate passes, so the weighted sum is computed: it is
  0.668 (0.2375 + 0 + 0.1425 + 0.18 + 0.108), also after rounding to three decimals. It
  meets the threshold 0.60, the list of blocking reasons holds the truthfulness entry
  alone, and the verdict does not pass.
\<close>

theorem blocked_example:
  "runAllGates H U now (example_ctx H U (decimal 45 2)) =
     \<lparr>verdict_pass = False,
      constitutional_score = decimal 668 3,
      yamas = \<lparr>ahimsa = \<lparr>pass = True, score = decimal 95 2, reason = ''AHIMSA_PASS''\<rparr>,
               satya = \<lparr>pass = False, score = Fin 0,
                        reason = ''SATYA_VIOLATION: confidence 0.450 < minimum 0.60''\<rparr>,
               asteya = \<lparr>pass = True, score = decimal 95 2, reason = ''ASTEYA_PASS''\<rparr>,
               brahmacharya = \<lparr>pass = True, score = decimal 90 2,
                               reason = ''BRAHMACHARYA_PASS''\<rparr>,
               aparigraha = \<lparr>pass = True, score = decimal 72 2,
                             reason = ''APARIGRAHA_PASS''\<rparr>\<rparr>,
      blocked_by = [''satya: SATYA_VIOLATION: confidence 0.450 < minimum 0.60''],
      receipt_fields = \<lparr>rf_constitutional_score = decimal 668 3,
                        gate_timestamp = now, brahmacharya_auto_reject = False\<rparr>\<rparr> \<and>
   weighted (decimal 95 2) (Fin 0) (decimal 95 2) (decimal 90 2) (decimal 72 2) = decimal 668 3 \<and>
   js_le (decimal 60 2) (decimal 668 3)"
  by (simp only: run_example_045 weighted_block threshold_block simp_thms)

text \<open>C3 as stated fails: the weighted sum of that request is not 0.6565.\<close>

theorem blocked_example_counterexample:
  "rf_constitutional_score (receipt_fields (runAllGates zero_digest plain_lower gate_time
     (example_ctx zero_digest plain_lower (decimal 45 2)))) \<noteq> decimal 6565 4"
  by (simp only: run_example_045 verdict.simps receipt_fields_t.simps block_not_06565 simp_thms)

section \<open>The boundary veto\<close>

lemma boundary_pass_iff:
  "pass (brahmaacharyaGate ctx) \<longleftrightarrow> truthy (scope ctx) \<and> the (scope ctx) \<in> set VALIDATED_SCOPES"
  by (simp add: brahmaacharyaGate_def)

text \<open>
  C1. When the boundary gate fails, which it does exactly when the scope is absent, empty
  or outside the validated list, the composite score is 0, before and after rounding,
  whatever the other four gates return.
\<close>

theorem boundary_veto:
  assumes "\<not> pass (brahmaacharyaGate ctx) \<or> \<not> truthy (scope ctx) \<or>
           the (scope ctx) \<notin> set VALIDATED_SCOPES"
  shows "constitutional_score (runAllGates H U now ctx) = Fin 0 \<and>
         rf_constitutional_score (receipt_fields (runAllGates H U now ctx)) = Fin 0"
proof -
  from assms have "\<not> pass (brahmaacharyaGate ctx)"
    by (auto simp: boundary_pass_iff)
  then show ?thesis
    by (simp add: runAllGates_def Let_def zero_rounds del: js_mul.simps)
qed

lemma astrology_gates:
  "pass (ahimsaGate astrology_ctx)" "pass (satyaGate astrology_ctx)"
  "pass (asteyaGate zero_digest plain_lower astrology_ctx)" "pass (aparigrahaGate astrology_ctx)"
  "\<not> pass (brahmaacharyaGate astrology_ctx)"
proof -
  show "pass (ahimsaGate astrology_ctx)"
    by (simp add: ahimsaGate_def astrology_ctx_def FORBIDDEN_TYPES_def)
  show "pass (satyaGate astrology_ctx)"
    by (simp add: satyaGate_def astrology_ctx_def conf_075_checks)
  have "generateConsentRecordId zero_digest plain_lower (Some ''nz-smokers'') (Some ''astrology'')
          (Some ''clin-1'') = Inr ''CR-00000000000000000000000000000000''"
    by (simp add: generateConsentRecordId_def zero_digest_def)
  from validate_generated [OF this] show "pass (asteyaGate zero_digest plain_lower astrology_ctx)"
    by (simp add: asteyaGate_def astrology_ctx_def)
  show "pass (aparigrahaGate astrology_ctx)"
    by (simp add: aparigrahaGate_def astrology_ctx_def)
  show "\<not> pass (brahmaacharyaGate astrology_ctx)"
    by (simp add: brahmaacharyaGate_def astrology_ctx_def VALIDATED_SCOPES_def)
qed

theorem boundary_veto_witness:
  "pass (ahimsaGate astrology_ctx) \<and> pass (satyaGate astrology_ctx) \<and>
   pass (asteyaGate zero_digest plain_lower astrology_ctx) \<and> pass (aparigrahaGate astrology_ctx) \<and>
   \<not> pass (brahmaacharyaGate astrology_ctx) \<and>
   constitutional_score (runAllGates zero_digest plain_lower gate_time astrology_ctx) = Fin 0 \<and>
   rf_constitutional_score (receipt_fields (runAllGates zero_digest plain_lower gate_time astrology_ctx)) = Fin 0"
  using boundary_veto [of astrology_ctx zero_digest plain_lower gate_time] astrology_gates
  by simp

section \<open>The truthfulness gate on missing fields\<close>

lemma satya_blocks_without_quality:
  assumes "data_quality ctx = None"
  shows "\<not> pass (satyaGate ctx)" "score (satyaGate ctx) = Fin 0"
  using assms by (simp_all add: satyaGate_def Let_def split: jsval.splits)

lemma satya_quality_reason:
  assumes "data_quality ctx = None" "confidence ctx = Some (JNum c)"
    "\<not> js_lt c (Fin 0)" "\<not> js_lt (Fin 1) c" "\<not> js_lt c (decimal 60 2)"
  shows "reason (satyaGate ctx) = unknown_quality_reason"
  using assms by (simp add: satyaGate_def unknown_quality_reason_def)

lemma satya_without_confidence:
  assumes "confidence ctx = None"
  shows "satyaGate ctx = \<lparr>pass = False, score = Fin 0,
           reason = ''SATYA_VIOLATION: confidence 0.000 < minimum 0.60''\<rparr>"
  using assms by (simp add: satyaGate_def zero_confidence_checks toFixed3_zero)

text \<open>
  C10 (amended). A context without \<open>data_quality\<close> never passes the truthfulness gate: the
  field defaults to "unknown", and the gate gives the insufficient-data-quality reason
  when the confidence is a number that passes the two confidence checks, which come
  first. A context without \<open>confidence\<close> has it default to 0 and is blocked with the
  below-minimum reason, not the not-a-number one.
\<close>

theorem satya_missing_fields:
  "(data_quality ctx = None \<longrightarrow> \<not> pass (satyaGate ctx) \<and> score (satyaGate ctx) = Fin 0) \<and>
   (data_quality ctx = None \<and> confidence ctx = Some (JNum c) \<and>
      \<not> js_lt c (Fin 0) \<and> \<not> js_lt (Fin 1) c \<and> \<not> js_lt c (decimal 60 2)
      \<longrightarrow> reason (satyaGate ctx) = unknown_quality_reason) \<and>
   (confidence ctx' = None \<longrightarrow>
      satyaGate ctx' = \<lparr>pass = False, score = Fin 0,
                        reason = ''SATYA_VIOLATION: confidence 0.000 < minimum 0.60''\<rparr>)"
  using satya_blocks_without_quality [of ctx] satya_quality_reason [of ctx c]
    satya_without_confidence [of ctx']
  by blast

theorem satya_missing_fields_witness:
  "data_quality confident_ctx = None \<and> confidence confident_ctx = Some (JNum (decimal 75 2)) \<and>
   \<not> js_lt (decimal 75 2) (Fin 0) \<and> \<not> js_lt (Fin 1) (decimal 75 2) \<and>
   \<not> js_lt (decimal 75 2) (decimal 60 2) \<and>
   \<not> pass (satyaGate confident_ctx) \<and> score (satyaGate confident_ctx) = Fin 0 \<and>
   reason (satyaGate confident_ctx) = unknown_quality_reason \<and>
   confidence empty_ctx = None \<and>
   satyaGate empty_ctx = \<lparr>pass = False, score = Fin 0,
                          reason = ''SATYA_VIOLATION: confidence 0.000 < minimum 0.60''\<rparr>"
proof -
  have f: "data_quality confident_ctx = None"
    "confidence confident_ctx = Some (JNum (decimal 75 2))" "confidence empty_ctx = None"
    by (simp_all add: confident_ctx_def empty_ctx_def)
  from satya_missing_fields [of confident_ctx "decimal 75 2" empty_ctx] f conf_075_checks
  show ?thesis by simp
qed

text \<open>
  C10 as stated fails: the empty context has no \<open>data_quality\<close>, and the gate blocks it
  with the confidence reason, not the data-quality one.
\<close>

theorem satya_missing_quality_counterexample:
  "data_quality empty_ctx = None \<and> reason (satyaGate empty_ctx) \<noteq> unknown_quality_reason"
proof -
  have "confidence empty_ctx = None" "data_quality empty_ctx = None"
    by (simp_all add: empty_ctx_def)
  then show ?thesis
    by (simp add: satya_without_confidence unknown_quality_reason_def)
qed

section \<open>Chain-of-custody links\<close>

lemma strip_Nil: "strip ws [] = []"
proof -
  have "find (\<lambda>w. w \<noteq> [] \<and> take (length w) [] = w) ws = None"
    by (auto simp: find_None_iff)
  then show ?thesis
    by (subst strip.simps) simp
qed

lemma trim_Nil: "trim [] = []"
  by (simp add: trim_def trimEnd_def strip_Nil)

lemma trim_examples:
  "trim ''KT-1771891100000-9f3c'' \<noteq> []" "trim ''  '' = []" "trim '' '' = []"
  by code_simp+

text \<open>
  C9 (amended). For a current receipt with the id \<open>ownId\<close>: without a parent the link has
  no parent id, depth 0 and the own id as root. With a parent receipt whose id is a
  non-empty string it has that id as parent id, the parent's depth plus one (one if the
  parent records no depth; a parent at depth 2 gives depth 3) and the parent's root, or
  the parent's id if it records no root. With a string that is not blank (not empty after
  trimming white space) it has the string as parent id and as root, and depth 1. A blank
  string is no parent.
\<close>

theorem chain_link_shapes:
  assumes "receipt_id cur = Some ownId"
  shows
   "chainReceipt (Some cur) NoParent
      = Inr (cur\<lparr>parent_receipt_id := None, chain_depth := Some (Fin 0),
                 chain_root := Some ownId\<rparr>) \<and>
    (receipt_id p = Some pid \<and> pid \<noteq> [] \<longrightarrow>
       chainReceipt (Some cur) (ParentReceipt p)
         = Inr (cur\<lparr>parent_receipt_id := Some pid,
                    chain_depth := Some (js_add (dflt (Fin 0) (chain_depth p)) (Fin 1)),
                    chain_root := Some (dflt pid (chain_root p))\<rparr>)) \<and>
    (receipt_id p = Some pid \<and> pid \<noteq> [] \<and> chain_depth p = Some (Fin 2) \<longrightarrow>
       map_sum id chain_depth (chainReceipt (Some cur) (ParentReceipt p)) = Inr (Some (Fin 3))) \<and>
    (trim s \<noteq> [] \<longrightarrow>
       chainReceipt (Some cur) (ParentId s)
         = Inr (cur\<lparr>parent_receipt_id := Some s, chain_depth := Some (Fin 1),
                    chain_root := Some s\<rparr>)) \<and>
    (trim s = [] \<longrightarrow>
       chainReceipt (Some cur) (ParentId s)
         = Inr (cur\<lparr>parent_receipt_id := None, chain_depth := Some (Fin 0),
                    chain_root := Some ownId\<rparr>))"
proof -
  have s: "trim s \<noteq> [] \<Longrightarrow> s \<noteq> []"
    by (auto simp: trim_Nil)
  show ?thesis
    using assms s
    by (cases "chain_root p") (auto simp: chainReceipt_def depth_sums simp del: js_add.simps)
qed

theorem chain_link_shapes_witness:
  "receipt_id local_receipt = Some ''KT-1771891200000-1a2b'' \<and>
   receipt_id parent_at_2 = Some ''KT-1771891100000-9f3c'' \<and>
   ''KT-1771891100000-9f3c'' \<noteq> [] \<and> chain_depth parent_at_2 = Some (Fin 2) \<and>
   trim ''KT-1771891100000-9f3c'' \<noteq> [] \<and> trim ''  '' = [] \<and>
   chainReceipt (Some local_receipt) (NoParent :: unit parent_ref)
     = Inr (local_receipt\<lparr>parent_receipt_id := None, chain_depth := Some (Fin 0),
              chain_root := Some ''KT-1771891200000-1a2b''\<rparr>) \<and>
   chainReceipt (Some local_receipt) (ParentReceipt parent_at_2)
     = Inr (local_receipt\<lparr>parent_receipt_id := Some ''KT-1771891100000-9f3c'',
              chain_depth := Some (Fin 3),
              chain_root := Some ''KT-1771890000000-0001''\<rparr>) \<and>
   chainReceipt (Some local_receipt) (ParentId ''KT-1771891100000-9f3c'' :: unit parent_ref)
     = Inr (local_receipt\<lparr>parent_receipt_id := Some ''KT-1771891100000-9f3c'',
              chain_depth := Some (Fin 1),
              chain_root := Some ''KT-1771891100000-9f3c''\<rparr>) \<and>
   chainReceipt (Some local_receipt) (ParentId ''  '' :: unit parent_ref)
     = Inr (local_receipt\<lparr>parent_receipt_id := None, chain_depth := Some (Fin 0),
              chain_root := Some ''KT-1771891200000-1a2b''\<rparr>)"
proof -
  have f: "receipt_id local_receipt = Some ''KT-1771891200000-1a2b''"
    "receipt_id parent_at_2 = Some ''KT-1771891100000-9f3c''"
    "chain_depth parent_at_2 = Some (Fin 2)"
    "chain_root parent_at_2 = Some ''KT-1771890000000-0001''"
    by (simp_all add: local_receipt_def parent_at_2_def)
  note t = trim_examples(1,2)
  note a = chain_link_shapes [OF f(1), of parent_at_2 "''KT-1771891100000-9f3c''"
      "''KT-1771891100000-9f3c''"]
  note b = chain_link_shapes [OF f(1), of parent_at_2 "''KT-1771891100000-9f3c''" "''  ''"]
  have 1: "chainReceipt (Some local_receipt) (NoParent :: unit parent_ref)
             = Inr (local_receipt\<lparr>parent_receipt_id := None, chain_depth := Some (Fin 0),
                      chain_root := Some ''KT-1771891200000-1a2b''\<rparr>)"
    using a by blast
  have 2: "chainReceipt (Some local_receipt) (ParentReceipt parent_at_2)
             = Inr (local_receipt\<lparr>parent_receipt_id := Some ''KT-1771891100000-9f3c'',
                      chain_depth := Some (Fin 3),
                      chain_root := Some ''KT-1771890000000-0001''\<rparr>)"
  proof -
    have "chainReceipt (Some local_receipt) (ParentReceipt parent_at_2)
            = Inr (local_receipt\<lparr>parent_receipt_id := Some ''KT-1771891100000-9f3c'',
                     chain_depth := Some (js_add (dflt (Fin 0) (chain_depth parent_at_2)) (Fin 1)),
                     chain_root := Some (dflt ''KT-1771891100000-9f3c'' (chain_root parent_at_2))\<rparr>)"
      using a f(2) by blast
    then show ?thesis
      by (simp only: f dflt.simps depth_sums)
  qed
  have 3: "chainReceipt (Some local_receipt) (ParentId ''KT-1771891100000-9f3c'' :: unit parent_ref)
             = Inr (local_receipt\<lparr>parent_receipt_id := Some ''KT-1771891100000-9f3c'',
                      chain_depth := Some (Fin 1),
                      chain_root := Some ''KT-1771891100000-9f3c''\<rparr>)"
    using a t(1) by blast
  have 4: "chainReceipt (Some local_receipt) (ParentId ''  '' :: unit parent_ref)
             = Inr (local_receipt\<lparr>parent_receipt_id := None, chain_depth := Some (Fin 0),
                      chain_root := Some ''KT-1771891200000-1a2b''\<rparr>)"
    using b t(2) by blast
  show ?thesis
    by (simp only: f t 1 2 3 4 simp_thms) simp
qed

text \<open>
  C9 as stated fails: a string of one space is a non-empty string, and the link made
  from it is that of a receipt without parent.
\<close>

theorem chain_link_shapes_counterexample:
  "'' '' \<noteq> [] \<and>
   chainReceipt (Some local_receipt) (ParentId '' '' :: unit parent_ref)
     \<noteq> Inr (local_receipt\<lparr>parent_receipt_id := Some '' '', chain_depth := Some (Fin 1),
               chain_root := Some '' ''\<rparr>) \<and>
   chainReceipt (Some local_receipt) (ParentId '' '' :: unit parent_ref)
     = Inr (local_receipt\<lparr>parent_receipt_id := None, chain_depth := Some (Fin 0),
              chain_root := Some ''KT-1771891200000-1a2b''\<rparr>)"
  by (simp add: chainReceipt_def local_receipt_def trim_examples)

section \<open>Hexadecimal strings\<close>

lemma foldl_hex:
  "foldl (\<lambda>acc c. 16 * acc + the (hex_val c)) acc s
     = acc * 16 ^ length s + foldl (\<lambda>acc c. 16 * acc + the (hex_val c)) 0 s"
proof (induction s arbitrary: acc)
  case Nil
  show ?case by simp
next
  case (Cons c s)
  define f where "f = (\<lambda>acc c. 16 * acc + the (hex_val c))"
  define v where "v = the (hex_val c)"
  have ih: "foldl f a s = a * 16 ^ length s + foldl f 0 s" for a
    unfolding f_def by (rule Cons.IH)
  have "foldl f acc (c # s) = foldl f (16 * acc + v) s"
    by (simp add: f_def v_def)
  also have "\<dots> = (16 * acc + v) * 16 ^ length s + foldl f 0 s"
    by (rule ih)
  finally have l: "foldl f acc (c # s) = (16 * acc + v) * 16 ^ length s + foldl f 0 s" .
  have "foldl f 0 (c # s) = foldl f v s"
    by (simp add: f_def v_def)
  also have "\<dots> = v * 16 ^ length s + foldl f 0 s"
    by (rule ih)
  finally have r: "foldl f 0 (c # s) = v * 16 ^ length s + foldl f 0 s" .
  show ?case
    unfolding f_def [symmetric] l r by (simp add: algebra_simps)
qed

lemma hex_nat_append: "hex_nat (xs @ ys) = hex_nat xs * 16 ^ length ys + hex_nat ys"
  unfolding hex_nat_def foldl_append by (rule foldl_hex)

lemma hex_nat_bound: "list_all is_hex s \<Longrightarrow> hex_nat s < 16 ^ length s"
proof (induction s rule: rev_induct)
  case Nil
  show ?case by (simp add: hex_nat_def)
next
  case (snoc c s)
  then obtain d where d: "hex_val c = Some d"
    by (auto simp: is_hex_def)
  have "hex_nat [c] = d"
    by (simp add: hex_nat_def d)
  moreover have "d < 16"
    using d by (rule hex_val_less)
  moreover have "hex_nat s < 16 ^ length s"
    using snoc by simp
  ultimately show ?case
    by (simp add: hex_nat_append)
qed

lemma hex_nat_take:
  assumes "list_all is_hex h" "n \<le> length h"
  shows "hex_nat (take n h) = hex_nat h div 16 ^ (length h - n)"
proof -
  have "list_all is_hex (drop n h)"
    using assms(1) by (metis append_take_drop_id list_all_append)
  then have "hex_nat (drop n h) < 16 ^ (length h - n)"
    using hex_nat_bound [of "drop n h"] by simp
  moreover have "hex_nat h = hex_nat (take n h) * 16 ^ (length h - n) + hex_nat (drop n h)"
    using hex_nat_append [of "take n h" "drop n h"] by simp
  ultimately show ?thesis by simp
qed

lemma white_space_ends: "list_all (\<lambda>w. w \<noteq> [] \<and> \<not> is_hex (hd w)) (map rev white_space)"
  by code_simp

lemma strip_hex:
  assumes "is_hex c"
  shows "strip (map rev white_space) (c # cs) = c # cs"
proof -
  have "\<not> (w \<noteq> [] \<and> take (length w) (c # cs) = w)" if "w \<in> set (map rev white_space)" for w
  proof
    assume m: "w \<noteq> [] \<and> take (length w) (c # cs) = w"
    then obtain d ds where w: "w = d # ds"
      by (cases w) auto
    with m have "d = c"
      by (metis hd_take length_greater_0_conv list.sel(1))
    moreover have "\<not> is_hex (hd w)"
      using white_space_ends that unfolding list_all_iff by blast
    ultimately show False
      using assms w by simp
  qed
  then have "find (\<lambda>w. w \<noteq> [] \<and> take (length w) (c # cs) = w) (map rev white_space) = None"
    unfolding find_None_iff by blast
  then show ?thesis
    by (subst strip.simps) simp
qed

lemma trimEnd_hex:
  assumes "s \<noteq> []" "list_all is_hex s"
  shows "trimEnd s = s"
proof -
  from assms obtain c cs where r: "rev s = c # cs" and c: "is_hex c"
    by (cases s rule: rev_cases) auto
  show ?thesis
    unfolding trimEnd_def r strip_hex [OF c] by (simp flip: r)
qed

lemma leading64_digest:
  assumes "is_digest h"
  shows "hexToBigInt h = Inr (leading64 (hex_nat h))"
proof -
  from assms have len: "length h = 64" and hx: "list_all is_hex h"
    by (simp_all add: is_digest_def)
  have "list_all is_hex (take 16 h)"
    using hx by (metis append_take_drop_id list_all_append)
  moreover have "take 16 h \<noteq> []"
    using len by auto
  ultimately have "hexToBigInt h = Inr (hex_nat (take 16 h))"
    by (simp add: hexToBigInt_def BigInt_hex_def trimEnd_hex)
  moreover have "hex_nat (take 16 h) = hex_nat h div 16 ^ 48"
    using hex_nat_take [OF hx, of 16] len by simp
  moreover have "hex_nat h < 16 ^ 64"
    using hex_nat_bound [OF hx] len by simp
  moreover have "(16::nat) ^ 64 = 2 ^ 256" "(16::nat) ^ 48 = 2 ^ 192"
    by simp_all
  ultimately show ?thesis
    by (simp add: leading64_def)
qed

lemma hex_fixed_zero: "hex_fixed n 0 = replicate n (CHR ''0'')"
proof (induction n)
  case 0
  show ?case by simp
next
  case (Suc n)
  have "hex_digit 0 = CHR ''0''"
    by code_simp
  then show ?case
    using Suc by (simp add: replicate_append_same)
qed

lemma length_toString16: "x < 16 ^ Suc n \<Longrightarrow> length (toString16 x) \<le> Suc n"
proof (induction n arbitrary: x)
  case 0
  then show ?case by (simp add: toString16.simps)
next
  case (Suc n)
  show ?case
  proof (cases "x < 16")
    case True
    then show ?thesis by (simp add: toString16.simps)
  next
    case False
    have "x div 16 < 16 ^ Suc n"
      using Suc.prems by (simp add: less_mult_imp_div_less mult.commute)
    then have "length (toString16 (x div 16)) \<le> Suc n"
      by (rule Suc.IH)
    with False show ?thesis
      by (subst toString16.simps) simp
  qed
qed

lemma padStart_toString16:
  "x < 16 ^ Suc n \<Longrightarrow> padStart (Suc n) (CHR ''0'') (toString16 x) = hex_fixed (Suc n) x"
proof (induction n arbitrary: x)
  case 0
  then show ?case by (simp add: toString16.simps padStart_def)
next
  case (Suc n)
  show ?case
  proof (cases "x < 16")
    case True
    then have "toString16 x = [hex_digit x]"
      by (simp add: toString16.simps)
    moreover have "hex_fixed (Suc (Suc n)) x = hex_fixed (Suc n) 0 @ [hex_digit x]"
      using True by simp
    ultimately show ?thesis
      by (simp only: hex_fixed_zero padStart_def) simp
  next
    case False
    have lt: "x div 16 < 16 ^ Suc n"
      using Suc.prems by (simp add: less_mult_imp_div_less mult.commute)
    have len: "length (toString16 (x div 16)) \<le> Suc n"
      using lt by (rule length_toString16)
    have ts: "toString16 x = toString16 (x div 16) @ [hex_digit (x mod 16)]"
      using False by (subst toString16.simps) simp
    have "padStart (Suc (Suc n)) (CHR ''0'') (toString16 x)
            = padStart (Suc n) (CHR ''0'') (toString16 (x div 16)) @ [hex_digit (x mod 16)]"
      unfolding ts padStart_def using len by (simp add: Suc_diff_le)
    also have "\<dots> = hex_fixed (Suc n) (x div 16) @ [hex_digit (x mod 16)]"
      by (simp only: Suc.IH [OF lt])
    finally show ?thesis by simp
  qed
qed

lemma hex_fixed_all_hex: "list_all is_hex (hex_fixed n x)"
  by (induction n arbitrary: x) (simp_all add: is_hex_def hex_val_hex_digit)

lemma length_hex_fixed: "length (hex_fixed n x) = n"
  by (induction n arbitrary: x) simp_all

lemma from_hex_append:
  "list_all is_hex xs \<Longrightarrow> even (length xs) \<Longrightarrow> from_hex (xs @ ys) = from_hex xs @ from_hex ys"
proof (induction xs rule: from_hex.induct)
  case (1 c d rest)
  then show ?case
    by (auto simp: is_hex_def)
next
  case 2
  show ?case by simp
next
  case (3 c)
  then show ?case by simp
qed

lemma from_hex_hex_fixed: "from_hex (hex_fixed (2 * n) x) = big_endian n x"
proof (induction n arbitrary: x)
  case 0
  show ?case by simp
next
  case (Suc n)
  have split: "hex_fixed (2 * Suc n) x
      = hex_fixed (2 * n) (x div 256) @ [hex_digit (x div 16 mod 16), hex_digit (x mod 16)]"
    by (simp flip: div_mult2_eq)
  have byte: "from_hex [hex_digit (x div 16 mod 16), hex_digit (x mod 16)] = [char_of (x mod 256)]"
  proof -
    have "16 * (x div 16 mod 16) + x mod 16 = x mod 256"
      using mod_mult2_eq [of x 16 16] by simp
    then show ?thesis
      by (simp add: hex_val_hex_digit)
  qed
  have "from_hex (hex_fixed (2 * n) (x div 256) @ [hex_digit (x div 16 mod 16), hex_digit (x mod 16)])
          = from_hex (hex_fixed (2 * n) (x div 256)) @
            from_hex [hex_digit (x div 16 mod 16), hex_digit (x mod 16)]"
    by (rule from_hex_append) (simp_all add: hex_fixed_all_hex length_hex_fixed)
  then show ?case
    unfolding split by (simp only: Suc.IH byte big_endian.simps)
qed

lemma encode_128:
  assumes "x < 2 ^ 128"
  shows "from_hex (padStart 32 (CHR ''0'') (toString16 x) @ rest) = big_endian 16 x @ from_hex rest"
proof -
  have "x < 16 ^ Suc 31"
    using assms by simp
  then have "padStart (Suc 31) (CHR ''0'') (toString16 x) = hex_fixed (Suc 31) x"
    by (rule padStart_toString16)
  then have p: "padStart 32 (CHR ''0'') (toString16 x) = hex_fixed (2 * 16) x"
    by simp
  have "from_hex (hex_fixed (2 * 16) x @ rest) = from_hex (hex_fixed (2 * 16) x) @ from_hex rest"
    by (rule from_hex_append) (simp_all add: hex_fixed_all_hex length_hex_fixed)
  then show ?thesis
    unfolding p by (simp only: from_hex_hex_fixed)
qed

section \<open>The Arnold transform and the mixing transform of the specification\<close>

lemma arnoldP_value: "arnoldP = 2 ^ 128 - 159"
  by (simp add: arnoldP_def)

lemma arnold_digests:
  assumes "is_digest aHash" "is_digest bHash"
  shows "arnoldTransform H aHash bHash
           = Inr (mixing_transform_spec H arnoldP (hex_nat aHash) (hex_nat bHash))"
proof -
  define a where "a = leading64 (hex_nat aHash)"
  define b where "b = leading64 (hex_nat bHash)"
  have x: "(2 * a + b) mod arnoldP < 2 ^ 128" and y: "(a + b) mod arnoldP < 2 ^ 128"
    by (rule less_trans [OF mod_less_divisor], simp add: arnoldP_def, simp add: arnoldP_def)+
  have e: "from_hex (padStart 32 (CHR ''0'') (toString16 ((2 * a + b) mod arnoldP)) @
                     padStart 32 (CHR ''0'') (toString16 ((a + b) mod arnoldP)))
           = big_endian 16 ((2 * a + b) mod arnoldP) @ big_endian 16 ((a + b) mod arnoldP)"
    using encode_128 [OF x, of "padStart 32 (CHR ''0'') (toString16 ((a + b) mod arnoldP))"]
      encode_128 [OF y, of "[]"]
    by simp
  show ?thesis
    unfolding arnoldTransform_def mixing_transform_spec_def leading64_digest [OF assms(1)]
      leading64_digest [OF assms(2)] a_def [symmetric] b_def [symmetric]
    by (simp add: Let_def e)
qed

lemma digests_are_digests: "is_digest digest_empty" "is_digest digest_abc"
  by (simp_all add: is_digest_def digest_empty_def digest_abc_def is_hex_def hex_val_def)

text \<open>
  C8. On two chain states given as hex digests, \<open>arnoldTransform\<close> returns what the mixing
  transform of the specification gives for the 256-bit values the digests denote, with
  the modulus \<open>2^128 - 159\<close>: the digest of the 128-bit big-endian encodings of
  \<open>(2a + b) mod P\<close> and \<open>(a + b) mod P\<close>, for the leading 64 bits \<open>a\<close> and \<open>b\<close>.
\<close>

theorem arnold_refines_spec:
  assumes "is_digest aHash" "is_digest bHash"
  shows "arnoldTransform H aHash bHash
           = Inr (mixing_transform_spec H arnoldP (hex_nat aHash) (hex_nat bHash)) \<and>
         arnoldP = 2 ^ 128 - 159 \<and>
         leading64 (hex_nat aHash) < 2 ^ 64 \<and> leading64 (hex_nat bHash) < 2 ^ 64"
proof -
  have "leading64 v < 2 ^ 64" for v
  proof -
    have "v mod 2 ^ 256 < 2 ^ 64 * 2 ^ 192"
      by simp
    then show ?thesis
      unfolding leading64_def by (rule less_mult_imp_div_less)
  qed
  then show ?thesis
    using arnold_digests [OF assms] arnoldP_value by simp
qed

theorem arnold_refines_spec_witness:
  "is_digest digest_empty \<and> is_digest digest_abc \<and>
   arnoldTransform zero_digest digest_empty digest_abc
     = Inr (mixing_transform_spec zero_digest arnoldP (hex_nat digest_empty) (hex_nat digest_abc))"
  using arnold_refines_spec [OF digests_are_digests, of zero_digest] digests_are_digests
  by simp

section \<open>Sealing and the chain state\<close>

lemma seal_step:
  assumes "sealTransport env st payload domain ts rnd = Inr (receipt, st')"
  shows "chainPosition st' = Suc (chainPosition st)"
    and "posc_chain_position (posc (layers receipt)) = Suc (chainPosition st)"
    and "link_chain_position (posc_link (seals (layers receipt))) = Suc (chainPosition st)"
    and "c_chain_position (compactReceipt receipt) = Suc (chainPosition st)"
    and "prevState st' = posc_state (posc (layers receipt))"
    and "prevPrevState st' = prevState st"
  using assms
  by (auto simp: sealTransport_def compactReceipt_def Let_def split: sum.splits option.splits)

lemma seal_succeeds:
  assumes "stringify env payload = Inr (Some json)"
    and "\<forall>m. \<exists>sg. sign_detached env m = Inr sg"
    and "is_digest (prevState st)" "is_digest (prevPrevState st)"
  shows "\<exists>receipt st'. sealTransport env st payload domain ts rnd = Inr (receipt, st') \<and>
           prevState st' = posc_state (posc (layers receipt)) \<and>
           prevPrevState st' = prevState st \<and>
           (\<exists>x. prevState st' = sha256 env x)"
proof -
  have sg: "sign_detached env m \<noteq> Inl e" for m e
    using assms(2) by (metis sum.distinct(1))
  have ar: "arnoldTransform (sha256 env) (prevPrevState st) (prevState st)
              = Inr (mixing_transform_spec (sha256 env) arnoldP (hex_nat (prevPrevState st))
                       (hex_nat (prevState st)))"
    using assms(3,4) by (simp add: arnold_digests)
  show ?thesis
    by (auto simp: sealTransport_def assms(1) sg ar Let_def split: sum.splits)
qed

lemma seal_calls_positions:
  assumes "seal_calls env st calls = Inr (receipts, st')"
  shows "length receipts = length calls \<and>
         chainPosition st' = chainPosition st + length calls \<and>
         map (\<lambda>r. c_chain_position (compactReceipt r)) receipts
           = [Suc (chainPosition st) ..< Suc (chainPosition st + length calls)]"
  using assms
proof (induction calls arbitrary: st receipts)
  case Nil
  then show ?case by simp
next
  case (Cons call calls)
  obtain payload domain ts rnd where call: "call = (payload, domain, ts, rnd)"
    by (cases call) auto
  from Cons.prems obtain r st1 rs where
    step: "sealTransport env st payload domain ts rnd = Inr (r, st1)" and
    rest: "seal_calls env st1 calls = Inr (rs, st')" and
    rcpts: "receipts = r # rs"
    by (auto simp: call split: sum.splits)
  note ih = Cons.IH [OF rest]
  have pos: "chainPosition st1 = Suc (chainPosition st)"
    "c_chain_position (compactReceipt r) = Suc (chainPosition st)"
    using seal_step [OF step] by simp_all
  have "[Suc (chainPosition st) ..< Suc (chainPosition st + length (call # calls))]
          = Suc (chainPosition st) # [Suc (chainPosition st1) ..< Suc (chainPosition st1 + length calls)]"
    by (subst upt_conv_Cons) (simp_all add: pos)
  with ih show ?case
    by (simp add: rcpts pos)
qed

lemma seal_calls_succeed:
  assumes "\<forall>x. is_digest (sha256 env x)"
    and "\<forall>m. \<exists>sg. sign_detached env m = Inr sg"
    and "list_all (\<lambda>call. \<exists>json. stringify env (fst call) = Inr (Some json)) calls"
    and "is_digest (prevState st)" "is_digest (prevPrevState st)"
  shows "\<exists>receipts st'. seal_calls env st calls = Inr (receipts, st')"
  using assms(3-5)
proof (induction calls arbitrary: st)
  case Nil
  show ?case by simp
next
  case (Cons call calls)
  obtain payload domain ts rnd where call: "call = (payload, domain, ts, rnd)"
    by (cases call) auto
  from Cons.prems(1) obtain json where j: "stringify env payload = Inr (Some json)"
    by (auto simp: call)
  from seal_succeeds [OF j assms(2) Cons.prems(2,3), of domain ts rnd]
  obtain r st1 where step: "sealTransport env st payload domain ts rnd = Inr (r, st1)"
    and p: "prevPrevState st1 = prevState st" and q: "\<exists>x. prevState st1 = sha256 env x"
    by blast
  have "is_digest (prevState st1)" "is_digest (prevPrevState st1)"
    using assms(1) q p Cons.prems(2) by auto
  with Cons.IH [of st1] Cons.prems(1)
  obtain rs st' where "seal_calls env st1 calls = Inr (rs, st')"
    by auto
  then show ?case
    by (simp add: call step)
qed

text \<open>
  C6. A seal call that returns advances the position counter by exactly one and puts the
  new counter into the receipt. When the platform's digests are hex digests, the signer
  does not throw and every payload serializes, a run of \<open>N\<close> seal calls on a fresh chain
  returns \<open>N\<close> receipts, leaves the counter at \<open>N\<close>, and the chain positions of the receipts
  are \<open>1, ..., N\<close> in order, so without duplicates or gaps.
\<close>

theorem seal_positions:
  assumes "\<forall>x. is_digest (sha256 env x)"
    and "\<forall>m. \<exists>sg. sign_detached env m = Inr sg"
    and "list_all (\<lambda>call. \<exists>json. stringify env (fst call) = Inr (Some json)) calls"
  shows "(\<forall>st payload domain ts rnd receipt st'.
            sealTransport env st payload domain ts rnd = Inr (receipt, st') \<longrightarrow>
              chainPosition st' = chainPosition st + 1 \<and>
              c_chain_position (compactReceipt receipt) = chainPosition st') \<and>
         (\<exists>receipts st'.
            seal_calls env (initial_chain env) calls = Inr (receipts, st') \<and>
            length receipts = length calls \<and>
            chainPosition st' = length calls \<and>
            map (\<lambda>r. c_chain_position (compactReceipt r)) receipts = [1 ..< Suc (length calls)] \<and>
            distinct (map (\<lambda>r. c_chain_position (compactReceipt r)) receipts))"
proof -
  have one: "\<forall>st payload domain ts rnd receipt st'.
            sealTransport env st payload domain ts rnd = Inr (receipt, st') \<longrightarrow>
              chainPosition st' = chainPosition st + 1 \<and>
              c_chain_position (compactReceipt receipt) = chainPosition st'"
    using seal_step(1,4) by fastforce
  have g: "is_digest (prevState (initial_chain env))" "is_digest (prevPrevState (initial_chain env))"
    using assms(1) by (simp_all add: initial_chain_def GENESIS_HASH_def)
  from seal_calls_succeed [OF assms g]
  obtain receipts st' where run: "seal_calls env (initial_chain env) calls = Inr (receipts, st')"
    by blast
  have "chainPosition (initial_chain env) = 0"
    by (simp add: initial_chain_def)
  with seal_calls_positions [OF run]
  have "length receipts = length calls" "chainPosition st' = length calls"
    "map (\<lambda>r. c_chain_position (compactReceipt r)) receipts = [1 ..< Suc (length calls)]"
    by simp_all
  moreover from this(3) have "distinct (map (\<lambda>r. c_chain_position (compactReceipt r)) receipts)"
    by simp
  ultimately show ?thesis
    using one run by blast
qed

lemma demo_platform_serves:
  "\<forall>x. is_digest (sha256 demo_platform x)"
  "\<forall>m. \<exists>sg. sign_detached demo_platform m = Inr sg"
  "list_all (\<lambda>call. \<exists>json. stringify demo_platform (fst call) = Inr (Some json)) three_calls"
  by (simp_all add: demo_platform_def zero_digest_def is_digest_def is_hex_def hex_val_def
        three_calls_def)

theorem seal_positions_witness:
  "(\<forall>x. is_digest (sha256 demo_platform x)) \<and>
   (\<forall>m. \<exists>sg. sign_detached demo_platform m = Inr sg) \<and>
   list_all (\<lambda>call. \<exists>json. stringify demo_platform (fst call) = Inr (Some json)) three_calls \<and>
   (\<exists>receipts st'.
      seal_calls demo_platform (initial_chain demo_platform) three_calls = Inr (receipts, st') \<and>
      length receipts = 3 \<and> chainPosition st' = 3 \<and>
      map (\<lambda>r. c_chain_position (compactReceipt r)) receipts = [1, 2, 3])"
proof -
  have l: "length three_calls = 3"
    by (simp add: three_calls_def)
  have u: "[1 ..< Suc 3] = [1, 2, 3]"
    by (simp add: upt_rec)
  have "\<exists>receipts st'.
          seal_calls demo_platform (initial_chain demo_platform) three_calls = Inr (receipts, st') \<and>
          length receipts = length three_calls \<and>
          chainPosition st' = length three_calls \<and>
          map (\<lambda>r. c_chain_position (compactReceipt r)) receipts = [1 ..< Suc (length three_calls)] \<and>
          distinct (map (\<lambda>r. c_chain_position (compactReceipt r)) receipts)"
    using seal_positions [OF demo_platform_serves] by (rule conjunct2)
  then have "\<exists>receipts st'.
          seal_calls demo_platform (initial_chain demo_platform) three_calls = Inr (receipts, st') \<and>
          length receipts = 3 \<and> chainPosition st' = 3 \<and>
          map (\<lambda>r. c_chain_position (compactReceipt r)) receipts = [1, 2, 3]"
    unfolding l u by (elim exE conjE) (intro exI conjI; assumption)
  with demo_platform_serves show ?thesis
    by (intro conjI) assumption+
qed

section \<open>Sealing failures\<close>

lemma seal_fails_on_stringify:
  "stringify env data = Inl err \<Longrightarrow> sealTransport env st data domain ts rnd = Inl err"
  by (simp add: sealTransport_def)

lemma seal_fails_on_sign:
  assumes "stringify env data = Inr (Some json)"
    and "sign_detached env
           (from_hex (sha256 env (sha256 env json @ sha256 env (domain @ ''|'' @ dec ts)))) = Inl err"
  shows "sealTransport env st data domain ts rnd = Inl err"
  using assms by (simp add: sealTransport_def Let_def)

text \<open>
  C7. When sealing throws, as it does when serialization or signing throws, the chain
  state stays as it was and neither wrapper raises the sealing error.
  \<open>kaitiakiWrapResponse\<close> returns the data itself. The function installed as \<open>res.json\<close>
  writes the error to the console, sets no header and hands the data as given to the
  original \<open>res.json\<close>, and its outcome is the outcome of the original on the data: the
  payload is delivered when the original delivers it, and an error reaches the caller only
  when the original itself throws it.
\<close>

theorem sealing_failure_handling:
  "(sealTransport env st data (dflt ''cloudflare-worker'' domain) ts rnd = Inl err \<longrightarrow>
      kaitiakiWrapResponse env st data domain ts rnd = (Plain data, st)) \<and>
   (sealTransport env st data (method @ '' '' @ path) ts rnd = Inl err \<longrightarrow>
      kaitiakiJson env rsp method path st res data ts rnd
        = (originalJson rsp (Plain data) res, st, [seal_error_line err]) \<and>
      (\<forall>res'. originalJson rsp (Plain data) res = Inr res' \<longrightarrow>
         kaitiakiJson env rsp method path st res data ts rnd
           = (Inr res', st, [seal_error_line err])) \<and>
      (\<forall>e. fst (kaitiakiJson env rsp method path st res data ts rnd) = Inl e \<longrightarrow>
         originalJson rsp (Plain data) res = Inl e)) \<and>
   (stringify env data = Inl err \<longrightarrow>
      kaitiakiWrapResponse env st data domain ts rnd = (Plain data, st) \<and>
      kaitiakiJson env rsp method path st res data ts rnd
        = (originalJson rsp (Plain data) res, st, [seal_error_line err])) \<and>
   (stringify env data = Inr (Some json) \<and> (\<forall>m. sign_detached env m = Inl err) \<longrightarrow>
      kaitiakiWrapResponse env st data domain ts rnd = (Plain data, st) \<and>
      kaitiakiJson env rsp method path st res data ts rnd
        = (originalJson rsp (Plain data) res, st, [seal_error_line err]))"
proof -
  have w: "kaitiakiWrapResponse env st data domain ts rnd = (Plain data, st)"
    if "sealTransport env st data (dflt ''cloudflare-worker'' domain) ts rnd = Inl e" for e
    using that by (simp add: kaitiakiWrapResponse_def)
  have j: "kaitiakiJson env rsp method path st res data ts rnd
             = (originalJson rsp (Plain data) res, st, [seal_error_line e])"
    if "sealTransport env st data (method @ '' '' @ path) ts rnd = Inl e" for e
    using that by (simp add: kaitiakiJson_def)
  show ?thesis
    using w j seal_fails_on_stringify [of env data err] seal_fails_on_sign [of env data json _ _ err]
    by (intro conjI impI allI) auto
qed

theorem sealing_failure_handling_witness:
  "stringify unsigned_platform ''{}'' = Inr (Some ''{}'') \<and>
   (\<forall>m. sign_detached unsigned_platform m = Inl (Error ''bad secret key size'')) \<and>
   sealTransport unsigned_platform (initial_chain unsigned_platform) ''{}'' ''cloudflare-worker''
     1771891200000 ''1a2b'' = Inl (Error ''bad secret key size'') \<and>
   sealTransport unsigned_platform (initial_chain unsigned_platform) ''{}''
     (''GET'' @ '' '' @ ''/api/health'') 1771891200000 ''1a2b'' = Inl (Error ''bad secret key size'') \<and>
   kaitiakiWrapResponse unsigned_platform (initial_chain unsigned_platform) ''{}'' None
     1771891200000 ''1a2b'' = (Plain ''{}'', initial_chain unsigned_platform) \<and>
   kaitiakiJson unsigned_platform (serializing_response unsigned_platform) ''GET'' ''/api/health''
     (initial_chain unsigned_platform) ([], []) ''{}'' 1771891200000 ''1a2b''
     = (Inr ([], [Plain ''{}'']), initial_chain unsigned_platform,
        [''[kaitiaki-middleware] seal error (non-fatal): bad secret key size'']) \<and>
   stringify failing_platform circular_data
     = Inl (TypeError ''Converting circular structure to JSON'') \<and>
   kaitiakiWrapResponse failing_platform (initial_chain failing_platform) circular_data None
     1771891200000 ''1a2b'' = (Plain circular_data, initial_chain failing_platform) \<and>
   kaitiakiJson failing_platform demo_response ''GET'' ''/api/health''
     (initial_chain failing_platform) ([], []) circular_data 1771891200000 ''1a2b''
     = (Inr ([], [Plain circular_data]), initial_chain failing_platform,
        [''[kaitiaki-middleware] seal error (non-fatal): Converting circular structure to JSON''])"
proof -
  let ?e = "Error ''bad secret key size''"
  let ?t = "TypeError ''Converting circular structure to JSON''"
  have u: "stringify unsigned_platform ''{}'' = Inr (Some ''{}'')"
    "\<forall>m. sign_detached unsigned_platform m = Inl ?e"
    by (simp_all add: unsigned_platform_def demo_platform_def)
  have su: "sealTransport unsigned_platform st ''{}'' d 1771891200000 ''1a2b'' = Inl ?e" for st d
    using seal_fails_on_sign [of unsigned_platform "''{}''" "''{}''" d 1771891200000 ?e] u
    by simp
  have ou: "originalJson (serializing_response unsigned_platform) (Plain ''{}'') ([], [])
              = Inr ([], [Plain ''{}''])"
    by (simp add: serializing_response_def u(1))
  have f: "stringify failing_platform circular_data = Inl ?t"
    by (simp add: failing_platform_def)
  have od: "originalJson demo_response (Plain circular_data) ([], []) = Inr ([], [Plain circular_data])"
    by (simp add: demo_response_def)
  have a: "kaitiakiWrapResponse unsigned_platform (initial_chain unsigned_platform) ''{}'' None
             1771891200000 ''1a2b'' = (Plain ''{}'', initial_chain unsigned_platform)"
    "kaitiakiJson unsigned_platform (serializing_response unsigned_platform) ''GET'' ''/api/health''
       (initial_chain unsigned_platform) ([], []) ''{}'' 1771891200000 ''1a2b''
     = (Inr ([], [Plain ''{}'']), initial_chain unsigned_platform, [seal_error_line ?e])"
    using sealing_failure_handling [of unsigned_platform "initial_chain unsigned_platform" "''{}''"
        None 1771891200000 "''1a2b''" ?e "''GET''" "''/api/health''"
        "serializing_response unsigned_platform" "([], [])" "''{}''"] u
    by (simp_all add: ou)
  have b: "kaitiakiWrapResponse failing_platform (initial_chain failing_platform) circular_data None
             1771891200000 ''1a2b'' = (Plain circular_data, initial_chain failing_platform)"
    "kaitiakiJson failing_platform demo_response ''GET'' ''/api/health''
       (initial_chain failing_platform) ([], []) circular_data 1771891200000 ''1a2b''
     = (Inr ([], [Plain circular_data]), initial_chain failing_platform, [seal_error_line ?t])"
    using sealing_failure_handling [of failing_platform "initial_chain failing_platform" circular_data
        None 1771891200000 "''1a2b''" ?t "''GET''" "''/api/health''" demo_response "([], [])"] f
    by (simp_all add: od)
  show ?thesis
    using u su a b f by (simp add: seal_error_line_def)
qed

text \<open>
  The call of the original \<open>res.json\<close> after the catch is outside the \<open>try\<close>. A response
  that serializes the body before it sends it throws on the data whose serialization made
  sealing fail: the error reaches the caller and nothing is sent.
\<close>

theorem sealing_failure_handling_counterexample:
  "sealTransport failing_platform (initial_chain failing_platform) circular_data
     (''GET'' @ '' '' @ ''/api/health'') 1771891200000 ''1a2b''
     = Inl (TypeError ''Converting circular structure to JSON'') \<and>
   kaitiakiJson failing_platform (serializing_response failing_platform) ''GET'' ''/api/health''
     (initial_chain failing_platform) ([], []) circular_data 1771891200000 ''1a2b''
     = (Inl (TypeError ''Converting circular structure to JSON''), initial_chain failing_platform,
        [''[kaitiaki-middleware] seal error (non-fatal): Converting circular structure to JSON''])"
proof -
  have f: "stringify failing_platform circular_data
             = Inl (TypeError ''Converting circular structure to JSON'')"
    by (simp add: failing_platform_def)
  have s: "sealTransport failing_platform st circular_data d 1771891200000 ''1a2b''
             = Inl (TypeError ''Converting circular structure to JSON'')" for st d
    by (simp add: sealTransport_def f)
  have o: "originalJson (serializing_response failing_platform) (Plain circular_data) ([], [])
             = Inl (TypeError ''Converting circular structure to JSON'')"
    by (simp add: serializing_response_def f)
  show ?thesis
    by (simp add: kaitiakiJson_def s o seal_error_line_def)
qed

end
